theory Spec2Isabelle
  imports Complex_Main "HOL-Library.Sublist"
begin

section \<open>Python strings\<close>

text \<open>
  A Python \<open>str\<close> is a sequence of Unicode code points, and \<open>len\<close>, \<open>in\<close> and
  \<open>splitlines\<close> work on code points. A string is therefore a list of code points
  (natural numbers), not a list of 8-bit characters. \<open>lit\<close> turns an ASCII literal
  into such a string. The two literals of the source with a character outside ASCII are
  written with that code point in front: U+2705 (9989, the check mark) and
  U+274C (10060, the cross mark).
\<close>

type_synonym pystr = "nat list"

definition lit :: "string \<Rightarrow> pystr" where
  "lit s = map of_char s"

text \<open>\<open>needle in hay\<close> on strings: \<open>needle\<close> occurs as a contiguous run.\<close>

fun contains :: "pystr \<Rightarrow> pystr \<Rightarrow> bool" where
  "contains needle [] = (needle = [])"
| "contains needle (c # cs) = (prefix needle (c # cs) \<or> contains needle cs)"

text \<open>
  \<open>str.splitlines()\<close>: the line boundaries of Python are LF (10), VT (11), FF (12),
  CR (13), FS (28), GS (29), RS (30), NEL (133), LS (8232) and PS (8233); CR followed by LF
  is one boundary. The boundaries are not part of the lines, and a last line is returned
  only if it is not empty.
\<close>

definition is_linebreak :: "nat \<Rightarrow> bool" where
  "is_linebreak c = (c \<in> {10, 11, 12, 13, 28, 29, 30, 133, 8232, 8233})"

fun split_from :: "pystr \<Rightarrow> pystr \<Rightarrow> pystr list" where
  "split_from cur [] = (if cur = [] then [] else [cur])"
| "split_from cur (c # cs) =
     (if c = 13 then
        (case cs of
           d # ds \<Rightarrow> if d = 10 then cur # split_from [] ds else cur # split_from [] cs
         | [] \<Rightarrow> cur # split_from [] cs)
      else if is_linebreak c then cur # split_from [] cs
      else split_from (cur @ [c]) cs)"

definition splitlines :: "pystr \<Rightarrow> pystr list" where
  "splitlines s = split_from [] s"

text \<open>\<open>"\n".join(lines)\<close>.\<close>

fun join_lines :: "pystr list \<Rightarrow> pystr" where
  "join_lines [] = []"
| "join_lines [l] = l"
| "join_lines (l # m # ls) = l @ [10] @ join_lines (m # ls)"

text \<open>\<open>str(n)\<close> for a length: the decimal digits of a natural number.\<close>

fun str_nat :: "nat \<Rightarrow> pystr" where
  "str_nat n = (if n < 10 then [48 + n] else str_nat (n div 10) @ [48 + n mod 10])"

declare str_nat.simps [simp del]

text \<open>Reading a decimal numeral back, to say what a count line states.\<close>

definition nat_of_digits :: "pystr \<Rightarrow> nat" where
  "nat_of_digits ds = foldl (\<lambda>a d. 10 * a + (d - 48)) 0 ds"

section \<open>Errors and the file system\<close>

text \<open>
  Every exception the two scripts can meet is a value. The exceptions of a file access
  (the subclasses of \<open>OSError\<close>, and a failed decoding) carry the path; \<open>IOFailure\<close>
  carries the message of any failure other than the four named ones (permission denied,
  bytes that do not decode). \<open>SystemExit\<close> carries the exit status.
\<close>

datatype io_error =
    FileNotFoundError pystr
  | IsADirectoryError pystr
  | NotADirectoryError pystr
  | FileExistsError pystr
  | IOFailure pystr

datatype error =
    OSError io_error
  | JSONDecodeError
  | TemplateNotFound
  | TemplateError pystr
  | AttributeError
  | TypeError
  | SystemExit nat

text \<open>
  \<open>str(e)\<close>, as the f-strings of the log scanner format it; only exceptions of a file
  access are ever formatted. For the named errors this is the errno text followed by the
  quoted path (the paths formatted are the fixed names of the scanner, which need no
  escaping).
\<close>

fun str_error :: "io_error \<Rightarrow> pystr" where
  "str_error (FileNotFoundError p) =
     lit ''[Errno 2] No such file or directory: '' @ [39] @ p @ [39]"
| "str_error (IsADirectoryError p) = lit ''[Errno 21] Is a directory: '' @ [39] @ p @ [39]"
| "str_error (NotADirectoryError p) = lit ''[Errno 20] Not a directory: '' @ [39] @ p @ [39]"
| "str_error (FileExistsError p) = lit ''[Errno 17] File exists: '' @ [39] @ p @ [39]"
| "str_error (IOFailure m) = m"

text \<open>
  The file system maps a path, as the program writes it, to what is there: a directory, a
  file with the text that reading it returns (decoded, as \<open>read_text\<close> gives it), or a
  file whose access fails with a message. The working directory itself always exists.
  A path is looked up as written: no \<open>.\<close> or \<open>..\<close> is resolved and there are no
  symbolic links. That is what the operating system does for a path made of plain names,
  such as the fixed relative names of the scanner; a statement below about a path built
  from the command line says so where it needs the path to be of that kind.
\<close>

datatype node = Dir | File pystr | Locked pystr

type_synonym fs = "pystr \<Rightarrow> node option"

text \<open>\<open>Path.exists()\<close>.\<close>

definition path_exists :: "pystr \<Rightarrow> fs \<Rightarrow> bool" where
  "path_exists p fs = (fs p \<noteq> None)"

text \<open>\<open>Path.read_text()\<close> and \<open>open(p)\<close> followed by a read of the whole file.\<close>

definition read_text :: "pystr \<Rightarrow> fs \<Rightarrow> io_error + pystr" where
  "read_text p fs =
     (case fs p of
        None \<Rightarrow> Inl (FileNotFoundError p)
      | Some Dir \<Rightarrow> Inl (IsADirectoryError p)
      | Some (Locked m) \<Rightarrow> Inl (IOFailure m)
      | Some (File s) \<Rightarrow> Inr s)"

text \<open>
  The directory part of a path, what is before its last slash (47), and the node found
  there, looked up as written; a path without a slash lies in the working directory.
\<close>

definition dirname :: "pystr \<Rightarrow> pystr" where
  "dirname p = (if 47 \<in> set p then rev (tl (dropWhile (\<lambda>c. c \<noteq> 47) (rev p))) else [])"

definition parent_node :: "pystr \<Rightarrow> fs \<Rightarrow> node option" where
  "parent_node p fs = (if dirname p = [] then Some Dir else fs (dirname p))"

text \<open>
  \<open>open(p, 'w')\<close> followed by one write, and \<open>Path.write_text\<close>: the directory of the
  path must exist; an existing file is truncated and replaced; nothing creates a directory.
  A failure of the open leaves the file system as it was.
\<close>

definition write_text :: "pystr \<Rightarrow> pystr \<Rightarrow> fs \<Rightarrow> io_error + fs" where
  "write_text p s fs =
     (case parent_node p fs of
        None \<Rightarrow> Inl (FileNotFoundError p)
      | Some (File _) \<Rightarrow> Inl (NotADirectoryError p)
      | Some (Locked _) \<Rightarrow> Inl (NotADirectoryError p)
      | Some Dir \<Rightarrow>
          (case fs p of
             Some Dir \<Rightarrow> Inl (IsADirectoryError p)
           | Some (Locked m) \<Rightarrow> Inl (IOFailure m)
           | _ \<Rightarrow> Inr (fs(p \<mapsto> File s))))"

text \<open>\<open>Path.mkdir(exist_ok=True)\<close>: an existing directory is accepted, anything else in
  the way is an error.\<close>

definition mkdir_exist_ok :: "pystr \<Rightarrow> fs \<Rightarrow> io_error + fs" where
  "mkdir_exist_ok p fs =
     (case fs p of
        None \<Rightarrow>
          (case parent_node p fs of
             Some Dir \<Rightarrow> Inr (fs(p \<mapsto> Dir))
           | None \<Rightarrow> Inl (FileNotFoundError p)
           | _ \<Rightarrow> Inl (NotADirectoryError p))
      | Some Dir \<Rightarrow> Inr fs
      | Some _ \<Rightarrow> Inl (FileExistsError p))"

text \<open>What a run leaves behind: the exception it ended with, if any, the lines it
  printed, and the file system.\<close>

record run =
  raised :: "error option"
  printed :: "pystr list"
  disk :: fs

section \<open>The log scanner: \<open>.github/scripts/generate_report.py\<close>\<close>

definition clippy_path :: pystr where "clippy_path = lit ''clippy-output.txt''"
definition fmt_path :: pystr where "fmt_path = lit ''fmt-output.txt''"
definition test_path :: pystr where "test_path = lit ''test-output.txt''"
definition report_dir :: pystr where "report_dir = lit ''reports''"
definition report_path :: pystr where "report_path = lit ''reports/analysis-report.md''"

text \<open>
  The three \<open>process_*\<close> methods (lines 64 to 145 of the script). Each starts from an
  empty \<open>results\<close> list inside a \<open>try\<close>; an exception can only come from \<open>exists\<close>
  or \<open>read_text\<close>, that is before anything is appended, and the handler appends one line
  made from the exception. A file that is absent leaves \<open>results\<close> empty.
\<close>

text \<open>The loop of each method: the lines of the text that contain the marker, in the
  order of the file.\<close>

definition matching_lines :: "pystr \<Rightarrow> pystr \<Rightarrow> pystr list" where
  "matching_lines marker text = filter (contains marker) (splitlines text)"

definition process_clippy_output :: "fs \<Rightarrow> pystr list" where
  "process_clippy_output fs =
     (if path_exists clippy_path fs then
        (case read_text clippy_path fs of
           Inl e \<Rightarrow> [lit ''Error processing clippy output: '' @ str_error e]
         | Inr text \<Rightarrow>
             (let warnings = matching_lines (lit ''warning:'') text in
              if warnings \<noteq> [] then
                [lit ''Found '' @ str_nat (length warnings) @ lit '' clippy warnings:'',
                 lit '''', lit ''```''] @ warnings @ [lit ''```'']
              else [lit ''No clippy warnings found.'']))
      else [])"

definition process_fmt_output :: "fs \<Rightarrow> pystr list" where
  "process_fmt_output fs =
     (if path_exists fmt_path fs then
        (case read_text fmt_path fs of
           Inl e \<Rightarrow> [lit ''Error processing fmt output: '' @ str_error e]
         | Inr text \<Rightarrow>
             (let formatting_issues = matching_lines (lit ''Diff in'') text in
              if formatting_issues \<noteq> [] then
                [lit ''Found '' @ str_nat (length formatting_issues) @ lit '' formatting issues:'',
                 lit '''', lit ''```''] @ formatting_issues @ [lit ''```'']
              else [lit ''No formatting issues found.'']))
      else [])"

definition process_test_output :: "fs \<Rightarrow> pystr list" where
  "process_test_output fs =
     (if path_exists test_path fs then
        (case read_text test_path fs of
           Inl e \<Rightarrow> [lit ''Error processing test output: '' @ str_error e]
         | Inr test_content \<Rightarrow>
             if contains (lit ''test result: ok'') test_content then
               [9989 # lit '' All tests passed'']
             else
               (let failed_tests = matching_lines (lit ''test result: FAILED'') test_content in
                if failed_tests \<noteq> [] then
                  [10060 # lit '' Some tests failed:'', lit '''', lit ''```'']
                    @ failed_tests @ [lit ''```'']
                else []))
      else [])"

text \<open>
  \<open>generate_report\<close> (lines 15 to 62) builds \<open>report_content\<close> by extending a list:
  the header, then one block for each \<open>process_*\<close> result that is not empty; it writes
  the lines joined by newlines to the report file and prints the path. \<open>ts\<close> is the clock reading,
  already formatted by \<open>strftime('%Y-%m-%d %H:%M:%S UTC')\<close>.
\<close>

definition report_header :: "pystr \<Rightarrow> pystr list" where
  "report_header ts =
     [lit ''# Code Analysis Report'', lit ''Generated on: '' @ ts, lit '''',
      lit ''## Summary'', lit '''']"

definition clippy_block :: "pystr list \<Rightarrow> pystr list" where
  "clippy_block clippy_results =
     (if clippy_results \<noteq> [] then
        [lit ''### Rust Analysis'', lit '''', lit ''#### Clippy Findings'', lit '''']
          @ clippy_results @ [lit '''']
      else [])"

definition fmt_block :: "pystr list \<Rightarrow> pystr list" where
  "fmt_block fmt_results =
     (if fmt_results \<noteq> [] then
        [lit ''#### Formatting Issues'', lit ''''] @ fmt_results @ [lit '''']
      else [])"

definition test_block :: "pystr list \<Rightarrow> pystr list" where
  "test_block test_results =
     (if test_results \<noteq> [] then
        [lit ''### Test Results'', lit ''''] @ test_results @ [lit '''']
      else [])"

definition report_content :: "pystr \<Rightarrow> fs \<Rightarrow> pystr list" where
  "report_content ts fs =
     report_header ts
       @ clippy_block (process_clippy_output fs)
       @ fmt_block (process_fmt_output fs)
       @ test_block (process_test_output fs)"

text \<open>The report after its first two lines: what does not depend on the clock.\<close>

definition report_body :: "fs \<Rightarrow> pystr list" where
  "report_body fs =
     [[], lit ''## Summary'', []]
       @ clippy_block (process_clippy_output fs)
       @ fmt_block (process_fmt_output fs)
       @ test_block (process_test_output fs)"

definition generate_report :: "pystr \<Rightarrow> fs \<Rightarrow> run" where
  "generate_report ts fs =
     (case write_text report_path (join_lines (report_content ts fs)) fs of
        Inl e \<Rightarrow> \<lparr>raised = Some (OSError e), printed = [], disk = fs\<rparr>
      | Inr fs' \<Rightarrow>
          \<lparr>raised = None, printed = [lit ''Report generated at '' @ report_path], disk = fs'\<rparr>)"

text \<open>\<open>main\<close>: the constructor makes the directory, then the report is generated.\<close>

definition scanner_main :: "pystr \<Rightarrow> fs \<Rightarrow> run" where
  "scanner_main ts fs =
     (case mkdir_exist_ok report_dir fs of
        Inl e \<Rightarrow> \<lparr>raised = Some (OSError e), printed = [], disk = fs\<rparr>
      | Inr fs1 \<Rightarrow> generate_report ts fs1)"

section \<open>Shapes of report lines\<close>

text \<open>
  What a line of the header and of each block can look like: its fixed lines, an error
  line, a count line, a fence, or a line of the log that contains the marker. These
  predicates tell the lines of one section from the headings and sentences of another.
\<close>

definition header_shape :: "pystr \<Rightarrow> bool" where
  "header_shape l =
     (l = lit ''# Code Analysis Report'' \<or> prefix (lit ''Generated on: '') l \<or> l = [] \<or>
      l = lit ''## Summary'')"

definition clippy_shape :: "pystr \<Rightarrow> bool" where
  "clippy_shape l =
     (l = lit ''### Rust Analysis'' \<or> l = lit ''#### Clippy Findings'' \<or> l = [] \<or>
      prefix (lit ''Error processing clippy output: '') l \<or> prefix (lit ''Found '') l \<or>
      l = lit ''```'' \<or> contains (lit ''warning:'') l \<or> l = lit ''No clippy warnings found.'')"

definition fmt_shape :: "pystr \<Rightarrow> bool" where
  "fmt_shape l =
     (l = lit ''#### Formatting Issues'' \<or> l = [] \<or>
      prefix (lit ''Error processing fmt output: '') l \<or> prefix (lit ''Found '') l \<or>
      l = lit ''```'' \<or> contains (lit ''Diff in'') l \<or> l = lit ''No formatting issues found.'')"

definition test_shape :: "pystr \<Rightarrow> bool" where
  "test_shape l =
     (l = lit ''### Test Results'' \<or> l = [] \<or>
      prefix (lit ''Error processing test output: '') l \<or> l = 9989 # lit '' All tests passed'' \<or>
      l = 10060 # lit '' Some tests failed:'' \<or> l = lit ''```'' \<or>
      contains (lit ''test result: FAILED'') l)"

section \<open>The template-based report builder: \<open>docs/income/automation/report-generator.py\<close>\<close>

text \<open>
  A parsed JSON document, as \<open>json.load\<close> returns it: \<open>None\<close>, a bool, an int, a
  float, a str, a list or a dict. A dict is the list of its items; a key is looked up with
  \<open>map_of\<close>.
\<close>

datatype json =
    JNull
  | JBool bool
  | JInt int
  | JFloat real
  | JStr pystr
  | JList "json list"
  | JDict "(pystr \<times> json) list"

text \<open>\<open>d.get(k, default)\<close>: only a dict has the method.\<close>

fun dict_get :: "json \<Rightarrow> pystr \<Rightarrow> json \<Rightarrow> error + json" where
  "dict_get (JDict kvs) k d = Inr (case map_of kvs k of None \<Rightarrow> d | Some v \<Rightarrow> v)"
| "dict_get _ k d = Inl AttributeError"

text \<open>\<open>len(v)\<close>: defined for a str, a list and a dict, a \<open>TypeError\<close> otherwise.\<close>

fun py_len :: "json \<Rightarrow> error + nat" where
  "py_len (JStr s) = Inr (length s)"
| "py_len (JList xs) = Inr (length xs)"
| "py_len (JDict kvs) = Inr (length (remdups (map fst kvs)))"
| "py_len _ = Inl TypeError"

text \<open>One entry of \<open>_calculate_metrics\<close>: \<open>len(analysis_data.get(k, []))\<close>.\<close>

definition count_of :: "json \<Rightarrow> pystr \<Rightarrow> error + nat" where
  "count_of analysis_data k =
     (case dict_get analysis_data k (JList []) of Inl e \<Rightarrow> Inl e | Inr v \<Rightarrow> py_len v)"

record metrics_summary =
  files_reviewed :: nat
  critical_issues :: nat
  major_issues :: nat
  minor_issues :: nat
  best_practices :: nat

text \<open>The five entries are evaluated in the order of the dict display; the first
  exception ends the call.\<close>

definition calculate_metrics :: "json \<Rightarrow> error + metrics_summary" where
  "calculate_metrics analysis_data =
     (case count_of analysis_data (lit ''files'') of Inl e \<Rightarrow> Inl e | Inr f \<Rightarrow>
      case count_of analysis_data (lit ''critical'') of Inl e \<Rightarrow> Inl e | Inr c \<Rightarrow>
      case count_of analysis_data (lit ''major'') of Inl e \<Rightarrow> Inl e | Inr ma \<Rightarrow>
      case count_of analysis_data (lit ''minor'') of Inl e \<Rightarrow> Inl e | Inr mi \<Rightarrow>
      case count_of analysis_data (lit ''best_practices'') of Inl e \<Rightarrow> Inl e | Inr b \<Rightarrow>
        Inr \<lparr>files_reviewed = f, critical_issues = c, major_issues = ma,
             minor_issues = mi, best_practices = b\<rparr>)"

text \<open>
  The count the specification describes for a key of a mapping: the length of the list
  under the key, and 0 when the key is absent.
\<close>

definition spec_count :: "(pystr \<times> json) list \<Rightarrow> pystr \<Rightarrow> nat" where
  "spec_count kvs k = (case map_of kvs k of Some (JList xs) \<Rightarrow> length xs | _ \<Rightarrow> 0)"

definition summary_keys :: "pystr list" where
  "summary_keys =
     [lit ''files'', lit ''critical'', lit ''major'', lit ''minor'', lit ''best_practices'']"

text \<open>The rendering context handed to the template.\<close>

record report_data =
  project_name :: pystr
  date :: pystr
  reviewer :: pystr
  analysis :: json
  security :: json
  performance :: json
  metrics :: metrics_summary

text \<open>
  What the script takes from its libraries and from the clock: the JSON parser
  (\<open>None\<close> for a malformed document), the template engine (compiling the template text
  gives a rendering function, and both steps can fail), and the two readings of
  \<open>datetime.now()\<close>, formatted with \<open>%Y-%m-%d\<close> in \<open>generate_report\<close> and with
  \<open>%Y%m%d\<close> in \<open>main\<close>.
\<close>

record env =
  json_loads :: "pystr \<Rightarrow> json option"
  jinja_compile :: "pystr \<Rightarrow> error + (report_data \<Rightarrow> error + pystr)"
  date_dashed :: pystr
  date_compact :: pystr

definition template_path :: pystr where "template_path = lit ''templates/code_review_template.md''"

text \<open>The constructor: \<open>get_template\<close> reads the template file from the \<open>templates\<close>
  directory and compiles it; a name that is no regular file is \<open>TemplateNotFound\<close>.\<close>

definition builder_init :: "env \<Rightarrow> fs \<Rightarrow> error + (report_data \<Rightarrow> error + pystr)" where
  "builder_init ev fs =
     (case fs template_path of
        Some (File src) \<Rightarrow> jinja_compile ev src
      | Some (Locked m) \<Rightarrow> Inl (OSError (IOFailure m))
      | _ \<Rightarrow> Inl TemplateNotFound)"

text \<open>The three loaders have the same body: open the file, parse it as JSON.\<close>

definition load_analysis_data :: "env \<Rightarrow> pystr \<Rightarrow> fs \<Rightarrow> error + json" where
  "load_analysis_data ev analysis_file fs =
     (case read_text analysis_file fs of
        Inl e \<Rightarrow> Inl (OSError e)
      | Inr text \<Rightarrow> (case json_loads ev text of None \<Rightarrow> Inl JSONDecodeError | Some j \<Rightarrow> Inr j))"

definition load_security_data :: "env \<Rightarrow> pystr \<Rightarrow> fs \<Rightarrow> error + json" where
  "load_security_data ev security_file fs =
     (case read_text security_file fs of
        Inl e \<Rightarrow> Inl (OSError e)
      | Inr text \<Rightarrow> (case json_loads ev text of None \<Rightarrow> Inl JSONDecodeError | Some j \<Rightarrow> Inr j))"

definition load_performance_data :: "env \<Rightarrow> pystr \<Rightarrow> fs \<Rightarrow> error + json" where
  "load_performance_data ev performance_file fs =
     (case read_text performance_file fs of
        Inl e \<Rightarrow> Inl (OSError e)
      | Inr text \<Rightarrow> (case json_loads ev text of None \<Rightarrow> Inl JSONDecodeError | Some j \<Rightarrow> Inr j))"

definition builder_generate_report ::
  "env \<Rightarrow> (report_data \<Rightarrow> error + pystr) \<Rightarrow> pystr \<Rightarrow> json \<Rightarrow> json \<Rightarrow> json \<Rightarrow> error + pystr" where
  "builder_generate_report ev render pn analysis_data security_data performance_data =
     (case calculate_metrics analysis_data of
        Inl e \<Rightarrow> Inl e
      | Inr m \<Rightarrow>
          render \<lparr>project_name = pn, date = date_dashed ev, reviewer = lit ''DataScienceBioLab'',
                  analysis = analysis_data, security = security_data,
                  performance = performance_data, metrics = m\<rparr>)"

text \<open>\<open>save_report\<close> opens the output file for writing and writes the text; it makes no
  directory.\<close>

definition save_report :: "pystr \<Rightarrow> pystr \<Rightarrow> fs \<Rightarrow> io_error + fs" where
  "save_report content output_file fs = write_text output_file content fs"

definition output_name :: "pystr \<Rightarrow> pystr \<Rightarrow> pystr" where
  "output_name pn ymd = lit ''reports/'' @ pn @ lit ''-review-'' @ ymd @ lit ''.md''"

definition usage_line :: pystr where
  "usage_line = lit ''Usage: report-generator.py <project_name> <analysis_file> <security_file> <performance_file>''"

definition failed :: "error \<Rightarrow> fs \<Rightarrow> run" where
  "failed e fs = \<lparr>raised = Some e, printed = [], disk = fs\<rparr>"

text \<open>\<open>main\<close>, with \<open>argv\<close> for \<open>sys.argv\<close>. Every step before \<open>save_report\<close> only
  reads; an exception ends the run where it is raised.\<close>

definition builder_main :: "env \<Rightarrow> pystr list \<Rightarrow> fs \<Rightarrow> run" where
  "builder_main ev argv fs =
     (if length argv < 5 then \<lparr>raised = Some (SystemExit 1), printed = [usage_line], disk = fs\<rparr>
      else
        (case builder_init ev fs of Inl e \<Rightarrow> failed e fs | Inr render \<Rightarrow>
         case load_analysis_data ev (argv ! 2) fs of Inl e \<Rightarrow> failed e fs | Inr analysis_data \<Rightarrow>
         case load_security_data ev (argv ! 3) fs of Inl e \<Rightarrow> failed e fs | Inr security_data \<Rightarrow>
         case load_performance_data ev (argv ! 4) fs of Inl e \<Rightarrow> failed e fs | Inr performance_data \<Rightarrow>
         case builder_generate_report ev render (argv ! 1) analysis_data security_data
                performance_data of Inl e \<Rightarrow> failed e fs | Inr report \<Rightarrow>
         (let output_file = output_name (argv ! 1) (date_compact ev) in
          case save_report report output_file fs of
            Inl e \<Rightarrow> failed (OSError e) fs
          | Inr fs' \<Rightarrow>
              \<lparr>raised = None, printed = [lit ''Report generated: '' @ output_file],
               disk = fs'\<rparr>)))"

section \<open>Concrete inputs\<close>

text \<open>File systems, a clock reading and a command line used to run the definitions.\<close>

definition empty_disk :: fs where
  "empty_disk = (\<lambda>p. None)"

definition ts0 :: pystr where
  "ts0 = lit ''2024-01-01 00:00:00 UTC''"

definition ts1 :: pystr where
  "ts1 = lit ''2024-01-02 12:30:00 UTC''"

text \<open>A clippy log with two warnings among three lines.\<close>

definition clippy_text :: pystr where
  "clippy_text = lit ''warning: unused variable'' @ [10] @ lit ''   Compiling demo''
                   @ [10] @ lit ''warning: dead code'' @ [10]"

text \<open>An fmt log with one diff line.\<close>

definition fmt_text :: pystr where
  "fmt_text = lit ''Diff in /src/main.rs at line 3:'' @ [10] @ lit ''+fn main() {}'' @ [10]"

text \<open>Test logs: a passing run, a failing run, a run of two test binaries of which the
  second fails, and a log with neither marker.\<close>

definition test_ok_text :: pystr where
  "test_ok_text = lit ''test result: ok. 5 passed'' @ [10]"

definition test_failed_text :: pystr where
  "test_failed_text = lit ''test a ... FAILED'' @ [10] @ lit ''test result: FAILED. 0 passed; 1 failed'' @ [10]"

definition test_mixed_text :: pystr where
  "test_mixed_text = lit ''test result: ok. 3 passed'' @ [10]
                       @ lit ''test result: FAILED. 0 passed; 1 failed'' @ [10]"

definition test_quiet_text :: pystr where
  "test_quiet_text = lit ''running 0 tests'' @ [10]"

definition quiet_disk :: fs where
  "quiet_disk = empty_disk(clippy_path \<mapsto> File (lit ''Checking demo'' @ [10]),
                           fmt_path \<mapsto> File [],
                           test_path \<mapsto> File test_quiet_text)"

definition busy_disk :: fs where
  "busy_disk = empty_disk(clippy_path \<mapsto> File clippy_text,
                          fmt_path \<mapsto> File fmt_text,
                          test_path \<mapsto> File test_failed_text)"

definition reports_disk :: fs where
  "reports_disk = busy_disk(report_dir \<mapsto> Dir)"

definition mixed_disk :: fs where
  "mixed_disk = empty_disk(test_path \<mapsto> File test_mixed_text)"

definition passing_disk :: fs where
  "passing_disk = empty_disk(test_path \<mapsto> File test_ok_text)"

definition fmt_only_disk :: fs where
  "fmt_only_disk = empty_disk(fmt_path \<mapsto> File fmt_text)"

definition denied :: pystr where
  "denied = lit ''[Errno 13] Permission denied''"

definition locked_disk :: fs where
  "locked_disk = empty_disk(clippy_path \<mapsto> Locked denied,
                            fmt_path \<mapsto> Dir,
                            test_path \<mapsto> Locked denied)"

text \<open>For the builder: a parser that knows the empty object, a template engine whose
  templates render to their own text, and a disk with the template and one input file.\<close>

definition env0 :: env where
  "env0 = \<lparr>json_loads = (\<lambda>s. if s = lit ''{}'' then Some (JDict []) else None),
           jinja_compile = (\<lambda>src. Inr (\<lambda>ctx. Inr src)),
           date_dashed = lit ''2024-01-01'',
           date_compact = lit ''20240101''\<rparr>"

definition argv0 :: "pystr list" where
  "argv0 = [lit ''report-generator.py'', lit ''demo'', lit ''a.json'', lit ''a.json'', lit ''a.json'']"

definition argv_bad :: "pystr list" where
  "argv_bad = [lit ''report-generator.py'', lit ''demo'', lit ''a.json'', lit ''missing.json'', lit ''a.json'']"

definition argv_malformed :: "pystr list" where
  "argv_malformed = [lit ''report-generator.py'', lit ''demo'', lit ''a.json'', lit ''a.json'', lit ''b.json'']"

definition argv_nested :: "pystr list" where
  "argv_nested = [lit ''report-generator.py'', lit ''a/b'', lit ''a.json'', lit ''a.json'', lit ''a.json'']"

definition input_disk :: fs where
  "input_disk = empty_disk(template_path \<mapsto> File (lit ''# Review''),
                           lit ''templates'' \<mapsto> Dir,
                           lit ''a.json'' \<mapsto> File (lit ''{}''),
                           lit ''b.json'' \<mapsto> File (lit ''{''))"

definition ready_disk :: fs where
  "ready_disk = input_disk(report_dir \<mapsto> Dir,
                           output_name (lit ''demo'') (lit ''20240101'') \<mapsto> File (lit ''old''))"

definition doc0 :: "(pystr \<times> json) list" where
  "doc0 = [(lit ''files'', JList [JStr (lit ''a.rs''), JStr (lit ''b.rs'')]),
           (lit ''minor'', JList [JNull]),
           (lit ''other'', JInt 3)]"

section \<open>Basic facts\<close>

lemma lit_Nil [simp]: "lit [] = []"
  by (simp add: lit_def)

lemma log_paths_distinct:
  "clippy_path \<noteq> fmt_path" "clippy_path \<noteq> test_path" "fmt_path \<noteq> test_path"
  "report_dir \<noteq> clippy_path" "report_dir \<noteq> fmt_path" "report_dir \<noteq> test_path"
  "report_path \<noteq> clippy_path" "report_path \<noteq> fmt_path" "report_path \<noteq> test_path"
  "report_path \<noteq> report_dir"
  by (simp_all add: clippy_path_def fmt_path_def test_path_def report_dir_def report_path_def
      lit_def)

lemma nat_of_digits_str_nat: "nat_of_digits (str_nat n) = n"
proof (induction n rule: str_nat.induct)
  case (1 n)
  show ?case
  proof (cases "n < 10")
    case True
    then show ?thesis by (subst str_nat.simps) (simp add: nat_of_digits_def)
  next
    case False
    with 1 have "nat_of_digits (str_nat (n div 10)) = n div 10" by simp
    with False show ?thesis
      by (subst str_nat.simps) (simp add: nat_of_digits_def)
  qed
qed

lemma split_from_no_break:
  "\<forall>c \<in> set cur. \<not> is_linebreak c \<Longrightarrow> l \<in> set (split_from cur s) \<Longrightarrow> \<forall>c \<in> set l. \<not> is_linebreak c"
proof (induction cur s arbitrary: l rule: split_from.induct)
  case (1 cur)
  then show ?case by (simp split: if_splits)
next
  case (2 cur c cs)
  note ok = \<open>\<forall>c \<in> set cur. \<not> is_linebreak c\<close>
  note mem = \<open>l \<in> set (split_from cur (c # cs))\<close>
  have nil: "\<forall>c \<in> set ([]::pystr). \<not> is_linebreak c" by simp
  show ?case
  proof (cases "c = 13")
    case True
    note c13 = this
    show ?thesis
    proof (cases cs)
      case Nil
      from mem c13 Nil have "l = cur" by simp
      with ok show ?thesis by simp
    next
      case (Cons d ds)
      show ?thesis
      proof (cases "d = 10")
        case True
        from mem c13 Cons True have "l = cur \<or> l \<in> set (split_from [] ds)" by simp
        with ok 2(2)[OF c13 Cons True nil] show ?thesis by blast
      next
        case False
        from mem c13 Cons False have "l = cur \<or> l \<in> set (split_from [] cs)" by simp
        with ok 2(3)[OF c13 Cons False nil] show ?thesis by blast
      qed
    qed
  next
    case False
    note nc = this
    show ?thesis
    proof (cases "is_linebreak c")
      case True
      from mem nc True have "l = cur \<or> l \<in> set (split_from [] cs)" by simp
      with ok 2(4)[OF nc True nil] show ?thesis by blast
    next
      case False
      have ok': "\<forall>x \<in> set (cur @ [c]). \<not> is_linebreak x" using ok False by simp
      from mem nc False have "l \<in> set (split_from (cur @ [c]) cs)" by simp
      from 2(5)[OF nc False ok' this] show ?thesis .
    qed
  qed
qed

lemma matching_lines_no_break:
  "l \<in> set (matching_lines marker body) \<Longrightarrow> \<forall>c \<in> set l. \<not> is_linebreak c"
  using split_from_no_break [of "[]" l body] by (simp add: matching_lines_def splitlines_def)

lemma matching_lines_contains:
  "l \<in> set (matching_lines marker text) \<Longrightarrow> contains marker l"
  by (simp add: matching_lines_def)

subsection \<open>What each method returns, by the state of its file\<close>

lemma process_clippy_absent: "fs clippy_path = None \<Longrightarrow> process_clippy_output fs = []"
  by (simp add: process_clippy_output_def path_exists_def)

lemma process_fmt_absent: "fs fmt_path = None \<Longrightarrow> process_fmt_output fs = []"
  by (simp add: process_fmt_output_def path_exists_def)

lemma process_test_absent: "fs test_path = None \<Longrightarrow> process_test_output fs = []"
  by (simp add: process_test_output_def path_exists_def)

lemma process_clippy_file:
  "fs clippy_path = Some (File text) \<Longrightarrow>
     process_clippy_output fs =
       (if matching_lines (lit ''warning:'') text \<noteq> [] then
          [lit ''Found '' @ str_nat (length (matching_lines (lit ''warning:'') text))
             @ lit '' clippy warnings:'', [], lit ''```'']
            @ matching_lines (lit ''warning:'') text @ [lit ''```'']
        else [lit ''No clippy warnings found.''])"
  by (simp add: process_clippy_output_def path_exists_def read_text_def Let_def)

lemma process_fmt_file:
  "fs fmt_path = Some (File text) \<Longrightarrow>
     process_fmt_output fs =
       (if matching_lines (lit ''Diff in'') text \<noteq> [] then
          [lit ''Found '' @ str_nat (length (matching_lines (lit ''Diff in'') text))
             @ lit '' formatting issues:'', [], lit ''```'']
            @ matching_lines (lit ''Diff in'') text @ [lit ''```'']
        else [lit ''No formatting issues found.''])"
  by (simp add: process_fmt_output_def path_exists_def read_text_def Let_def)

lemma process_test_file:
  "fs test_path = Some (File text) \<Longrightarrow>
     process_test_output fs =
       (if contains (lit ''test result: ok'') text then [9989 # lit '' All tests passed'']
        else if matching_lines (lit ''test result: FAILED'') text \<noteq> [] then
          [10060 # lit '' Some tests failed:'', [], lit ''```'']
            @ matching_lines (lit ''test result: FAILED'') text @ [lit ''```'']
        else [])"
  by (simp add: process_test_output_def path_exists_def read_text_def Let_def)

subsection \<open>The shape of the lines of each method\<close>

lemma clippy_lines:
  "l \<in> set (process_clippy_output fs) \<Longrightarrow>
     prefix (lit ''Error processing clippy output: '') l \<or> prefix (lit ''Found '') l \<or> l = [] \<or>
     l = lit ''```'' \<or> contains (lit ''warning:'') l \<or> l = lit ''No clippy warnings found.''"
  by (auto simp: process_clippy_output_def Let_def matching_lines_def split: if_splits sum.splits)

lemma fmt_lines:
  "l \<in> set (process_fmt_output fs) \<Longrightarrow>
     prefix (lit ''Error processing fmt output: '') l \<or> prefix (lit ''Found '') l \<or> l = [] \<or>
     l = lit ''```'' \<or> contains (lit ''Diff in'') l \<or> l = lit ''No formatting issues found.''"
  by (auto simp: process_fmt_output_def Let_def matching_lines_def split: if_splits sum.splits)

lemma test_lines:
  "l \<in> set (process_test_output fs) \<Longrightarrow>
     prefix (lit ''Error processing test output: '') l \<or> l = 9989 # lit '' All tests passed'' \<or>
     l = 10060 # lit '' Some tests failed:'' \<or> l = [] \<or>
     l = lit ''```'' \<or> contains (lit ''test result: FAILED'') l"
  by (auto simp: process_test_output_def Let_def matching_lines_def split: if_splits sum.splits)


lemma header_lines: "l \<in> set (report_header ts) \<Longrightarrow> header_shape l"
  by (auto simp: report_header_def header_shape_def)

lemma clippy_block_lines: "l \<in> set (clippy_block (process_clippy_output fs)) \<Longrightarrow> clippy_shape l"
proof -
  assume "l \<in> set (clippy_block (process_clippy_output fs))"
  then have "l = lit ''### Rust Analysis'' \<or> l = lit ''#### Clippy Findings'' \<or> l = [] \<or>
      l \<in> set (process_clippy_output fs)"
    by (auto simp: clippy_block_def split: if_splits)
  then show ?thesis
    unfolding clippy_shape_def using clippy_lines [of l fs] by blast
qed

lemma fmt_block_lines: "l \<in> set (fmt_block (process_fmt_output fs)) \<Longrightarrow> fmt_shape l"
proof -
  assume "l \<in> set (fmt_block (process_fmt_output fs))"
  then have "l = lit ''#### Formatting Issues'' \<or> l = [] \<or> l \<in> set (process_fmt_output fs)"
    by (auto simp: fmt_block_def split: if_splits)
  then show ?thesis
    unfolding fmt_shape_def using fmt_lines [of l fs] by blast
qed

lemma test_block_lines: "l \<in> set (test_block (process_test_output fs)) \<Longrightarrow> test_shape l"
proof -
  assume "l \<in> set (test_block (process_test_output fs))"
  then have "l = lit ''### Test Results'' \<or> l = [] \<or> l \<in> set (process_test_output fs)"
    by (auto simp: test_block_def split: if_splits)
  then show ?thesis
    unfolding test_shape_def using test_lines [of l fs] by blast
qed

lemma foreign_shapes:
  "\<not> header_shape (lit ''### Rust Analysis'')"
  "\<not> fmt_shape (lit ''### Rust Analysis'')"
  "\<not> test_shape (lit ''### Rust Analysis'')"
  "\<not> header_shape (lit ''#### Clippy Findings'')"
  "\<not> fmt_shape (lit ''#### Clippy Findings'')"
  "\<not> test_shape (lit ''#### Clippy Findings'')"
  "\<not> header_shape (lit ''No clippy warnings found.'')"
  "\<not> fmt_shape (lit ''No clippy warnings found.'')"
  "\<not> test_shape (lit ''No clippy warnings found.'')"
  "\<not> header_shape (lit ''#### Formatting Issues'')"
  "\<not> clippy_shape (lit ''#### Formatting Issues'')"
  "\<not> test_shape (lit ''#### Formatting Issues'')"
  "\<not> header_shape (lit ''No formatting issues found.'')"
  "\<not> clippy_shape (lit ''No formatting issues found.'')"
  "\<not> test_shape (lit ''No formatting issues found.'')"
  "\<not> header_shape (lit ''### Test Results'')"
  "\<not> clippy_shape (lit ''### Test Results'')"
  "\<not> fmt_shape (lit ''### Test Results'')"
  by (simp_all add: header_shape_def clippy_shape_def fmt_shape_def test_shape_def lit_def)

lemma report_content_set:
  "set (report_content ts fs) =
     set (report_header ts) \<union> set (clippy_block (process_clippy_output fs))
       \<union> set (fmt_block (process_fmt_output fs)) \<union> set (test_block (process_test_output fs))"
  by (auto simp add: report_content_def)

lemma block_Nil [simp]: "clippy_block [] = []" "fmt_block [] = []" "test_block [] = []"
  by (simp_all add: clippy_block_def fmt_block_def test_block_def)

lemma clippy_omitted:
  assumes "process_clippy_output fs = []"
  shows "lit ''### Rust Analysis'' \<notin> set (report_content ts fs)"
    and "lit ''#### Clippy Findings'' \<notin> set (report_content ts fs)"
    and "lit ''No clippy warnings found.'' \<notin> set (report_content ts fs)"
  using assms header_lines [of _ ts] fmt_block_lines [of _ fs] test_block_lines [of _ fs]
    foreign_shapes
  by (auto simp add: report_content_set)

lemma fmt_omitted:
  assumes "process_fmt_output fs = []"
  shows "lit ''#### Formatting Issues'' \<notin> set (report_content ts fs)"
    and "lit ''No formatting issues found.'' \<notin> set (report_content ts fs)"
  using assms header_lines [of _ ts] clippy_block_lines [of _ fs] test_block_lines [of _ fs]
    foreign_shapes
  by (auto simp add: report_content_set)

lemma test_omitted:
  assumes "process_test_output fs = []"
  shows "lit ''### Test Results'' \<notin> set (report_content ts fs)"
  using assms header_lines [of _ ts] clippy_block_lines [of _ fs] fmt_block_lines [of _ fs]
    foreign_shapes
  by (auto simp add: report_content_set)

subsection \<open>The concrete logs, evaluated\<close>

lemma clippy_text_matches:
  "matching_lines (lit ''warning:'') clippy_text =
     [lit ''warning: unused variable'', lit ''warning: dead code'']"
  by (simp add: matching_lines_def splitlines_def clippy_text_def lit_def is_linebreak_def)

lemma fmt_text_matches:
  "matching_lines (lit ''Diff in'') fmt_text = [lit ''Diff in /src/main.rs at line 3:'']"
  by (simp add: matching_lines_def splitlines_def fmt_text_def lit_def is_linebreak_def)

lemma test_failed_text_matches:
  "\<not> contains (lit ''test result: ok'') test_failed_text"
  "matching_lines (lit ''test result: FAILED'') test_failed_text =
     [lit ''test result: FAILED. 0 passed; 1 failed'']"
  by (simp_all add: matching_lines_def splitlines_def test_failed_text_def lit_def
      is_linebreak_def)

lemma test_mixed_text_matches:
  "contains (lit ''test result: ok'') test_mixed_text"
  "matching_lines (lit ''test result: FAILED'') test_mixed_text =
     [lit ''test result: FAILED. 0 passed; 1 failed'']"
  by (simp_all add: matching_lines_def splitlines_def test_mixed_text_def lit_def
      is_linebreak_def)

lemma test_quiet_text_matches:
  "\<not> contains (lit ''test result: ok'') test_quiet_text"
  "matching_lines (lit ''test result: FAILED'') test_quiet_text = []"
  by (simp_all add: matching_lines_def splitlines_def test_quiet_text_def lit_def
      is_linebreak_def)

lemma quiet_logs_match:
  "matching_lines (lit ''warning:'') (lit ''Checking demo'' @ [10]) = []"
  "matching_lines (lit ''Diff in'') [] = []"
  by (simp_all add: matching_lines_def splitlines_def lit_def is_linebreak_def)

lemma disk_lookups:
  "empty_disk p = None"
  "busy_disk clippy_path = Some (File clippy_text)"
  "busy_disk fmt_path = Some (File fmt_text)"
  "busy_disk test_path = Some (File test_failed_text)"
  "quiet_disk clippy_path = Some (File (lit ''Checking demo'' @ [10]))"
  "quiet_disk fmt_path = Some (File [])"
  "quiet_disk test_path = Some (File test_quiet_text)"
  "mixed_disk test_path = Some (File test_mixed_text)"
  "passing_disk test_path = Some (File test_ok_text)"
  "fmt_only_disk clippy_path = None"
  "fmt_only_disk fmt_path = Some (File fmt_text)"
  "locked_disk clippy_path = Some (Locked denied)"
  "locked_disk fmt_path = Some Dir"
  "locked_disk test_path = Some (Locked denied)"
  "locked_disk report_dir = None"
  "locked_disk report_path = None"
  using log_paths_distinct
  by (simp_all add: empty_disk_def busy_disk_def quiet_disk_def mixed_disk_def passing_disk_def
      fmt_only_disk_def locked_disk_def)

section \<open>The log scanner: claims\<close>

text \<open>
  Claim C5. Test-output processing has two branches. For every readable test-output file
  whose text contains \<open>test result: ok\<close> anywhere, the result is the single line
  "U+2705 All tests passed", whatever else the file holds: the Test Results section is
  its heading, that line and the blank lines around it, and there is no fenced block.
  Only when the marker is absent are the lines containing \<open>test result: FAILED\<close>
  collected and rendered.
\<close>

theorem test_output_two_branches:
  assumes "fs test_path = Some (File body)"
  shows "(contains (lit ''test result: ok'') body \<longrightarrow>
            process_test_output fs = [9989 # lit '' All tests passed''] \<and>
            test_block (process_test_output fs) =
              [lit ''### Test Results'', [], 9989 # lit '' All tests passed'', []] \<and>
            lit ''```'' \<notin> set (process_test_output fs))
       \<and> (\<not> contains (lit ''test result: ok'') body \<longrightarrow>
            process_test_output fs =
              (if matching_lines (lit ''test result: FAILED'') body \<noteq> [] then
                 [10060 # lit '' Some tests failed:'', [], lit ''```'']
                   @ matching_lines (lit ''test result: FAILED'') body @ [lit ''```'']
               else []))"
proof (intro conjI impI)
  assume ok: "contains (lit ''test result: ok'') body"
  with assms show passed: "process_test_output fs = [9989 # lit '' All tests passed'']"
    by (simp add: process_test_file)
  show "test_block (process_test_output fs) =
          [lit ''### Test Results'', [], 9989 # lit '' All tests passed'', []]"
    by (simp add: passed test_block_def)
  show "lit ''```'' \<notin> set (process_test_output fs)"
    by (simp add: passed lit_def)
next
  assume "\<not> contains (lit ''test result: ok'') body"
  with assms show "process_test_output fs =
      (if matching_lines (lit ''test result: FAILED'') body \<noteq> [] then
         [10060 # lit '' Some tests failed:'', [], lit ''```'']
           @ matching_lines (lit ''test result: FAILED'') body @ [lit ''```'']
       else [])"
    by (simp add: process_test_file)
qed

theorem test_output_two_branches_witness:
  "mixed_disk test_path = Some (File test_mixed_text)
   \<and> contains (lit ''test result: ok'') test_mixed_text
   \<and> matching_lines (lit ''test result: FAILED'') test_mixed_text \<noteq> []
   \<and> process_test_output mixed_disk = [9989 # lit '' All tests passed'']
   \<and> busy_disk test_path = Some (File test_failed_text)
   \<and> \<not> contains (lit ''test result: ok'') test_failed_text
   \<and> process_test_output busy_disk =
       [10060 # lit '' Some tests failed:'', [], lit ''```'',
        lit ''test result: FAILED. 0 passed; 1 failed'', lit ''```'']"
  using test_output_two_branches [of mixed_disk test_mixed_text]
    test_output_two_branches [of busy_disk test_failed_text]
  by (simp add: disk_lookups test_mixed_text_matches test_failed_text_matches)

text \<open>
  Claim C4, as amended. For \<open>clippy-output.txt\<close> and \<open>fmt-output.txt\<close>, whenever some
  line contains the marker, the count line states exactly the number of matching lines and
  the fenced block holds exactly those lines, in the order of the file. For
  \<open>test-output.txt\<close> there is no count line: when \<open>test result: ok\<close> does not occur
  and some line contains \<open>test result: FAILED\<close>, the section is the fixed line
  "U+274C Some tests failed:" and a fenced block with exactly those lines in file order.
  The number on a count line reads back as the number of matching lines; no matching line
  is a fence or holds a line boundary.
\<close>

theorem count_line_and_fenced_block:
  "(fs clippy_path = Some (File cbody) \<and> matching_lines (lit ''warning:'') cbody \<noteq> [] \<longrightarrow>
      process_clippy_output fs =
        [lit ''Found '' @ str_nat (length (matching_lines (lit ''warning:'') cbody))
           @ lit '' clippy warnings:'', [], lit ''```'']
          @ matching_lines (lit ''warning:'') cbody @ [lit ''```''])
   \<and> (fs fmt_path = Some (File fbody) \<and> matching_lines (lit ''Diff in'') fbody \<noteq> [] \<longrightarrow>
      process_fmt_output fs =
        [lit ''Found '' @ str_nat (length (matching_lines (lit ''Diff in'') fbody))
           @ lit '' formatting issues:'', [], lit ''```'']
          @ matching_lines (lit ''Diff in'') fbody @ [lit ''```''])
   \<and> (fs test_path = Some (File tbody) \<and> \<not> contains (lit ''test result: ok'') tbody
        \<and> matching_lines (lit ''test result: FAILED'') tbody \<noteq> [] \<longrightarrow>
      process_test_output fs =
        [10060 # lit '' Some tests failed:'', [], lit ''```'']
          @ matching_lines (lit ''test result: FAILED'') tbody @ [lit ''```''])
   \<and> nat_of_digits (str_nat (length (matching_lines marker body))) =
        length (matching_lines marker body)
   \<and> matching_lines marker body = filter (contains marker) (splitlines body)
   \<and> (\<forall>l \<in> set (matching_lines marker body). \<forall>c \<in> set l. \<not> is_linebreak c)
   \<and> lit ''```'' \<notin> set (matching_lines (lit ''warning:'') cbody)
   \<and> lit ''```'' \<notin> set (matching_lines (lit ''Diff in'') fbody)
   \<and> lit ''```'' \<notin> set (matching_lines (lit ''test result: FAILED'') tbody)"
proof -
  have fence: "\<not> contains (lit ''warning:'') (lit ''```'')"
    "\<not> contains (lit ''Diff in'') (lit ''```'')"
    "\<not> contains (lit ''test result: FAILED'') (lit ''```'')"
    by (simp_all add: lit_def)
  have a: "lit ''```'' \<notin> set (matching_lines (lit ''warning:'') cbody)"
    using matching_lines_contains fence(1) by blast
  have b: "lit ''```'' \<notin> set (matching_lines (lit ''Diff in'') fbody)"
    using matching_lines_contains fence(2) by blast
  have c: "lit ''```'' \<notin> set (matching_lines (lit ''test result: FAILED'') tbody)"
    using matching_lines_contains fence(3) by blast
  have d: "\<forall>l \<in> set (matching_lines marker body). \<forall>c \<in> set l. \<not> is_linebreak c"
    using matching_lines_no_break by blast
  show ?thesis
    using a b c d
    by (simp add: process_clippy_file process_fmt_file process_test_file nat_of_digits_str_nat
        matching_lines_def)
qed

theorem count_line_and_fenced_block_witness:
  "busy_disk clippy_path = Some (File clippy_text)
   \<and> matching_lines (lit ''warning:'') clippy_text =
       [lit ''warning: unused variable'', lit ''warning: dead code'']
   \<and> process_clippy_output busy_disk =
       [lit ''Found 2 clippy warnings:'', [], lit ''```'', lit ''warning: unused variable'',
        lit ''warning: dead code'', lit ''```'']
   \<and> busy_disk fmt_path = Some (File fmt_text)
   \<and> process_fmt_output busy_disk =
       [lit ''Found 1 formatting issues:'', [], lit ''```'',
        lit ''Diff in /src/main.rs at line 3:'', lit ''```'']
   \<and> busy_disk test_path = Some (File test_failed_text)
   \<and> \<not> contains (lit ''test result: ok'') test_failed_text
   \<and> process_test_output busy_disk =
       [10060 # lit '' Some tests failed:'', [], lit ''```'',
        lit ''test result: FAILED. 0 passed; 1 failed'', lit ''```'']"
proof -
  have count2: "lit ''Found '' @ str_nat (Suc (Suc 0)) @ lit '' clippy warnings:''
      = lit ''Found 2 clippy warnings:''"
    by (simp add: str_nat.simps lit_def)
  have count1: "lit ''Found '' @ str_nat (Suc 0) @ lit '' formatting issues:''
      = lit ''Found 1 formatting issues:''"
    by (simp add: str_nat.simps lit_def)
  show ?thesis
    using count_line_and_fenced_block [of busy_disk clippy_text fmt_text test_failed_text
        "lit ''warning:''" clippy_text]
    by (simp add: disk_lookups clippy_text_matches fmt_text_matches test_failed_text_matches
        count1 count2)
qed

text \<open>
  The claim as first stated, for every input log file, fails on the test log: a log of two
  test binaries, the first passing and the second failing, has a line containing
  \<open>test result: FAILED\<close>, yet the section is the single success line, with no count line
  and no fenced block.
\<close>

theorem count_line_and_fenced_block_counterexample:
  "mixed_disk test_path = Some (File test_mixed_text)
   \<and> matching_lines (lit ''test result: FAILED'') test_mixed_text =
       [lit ''test result: FAILED. 0 passed; 1 failed'']
   \<and> process_test_output mixed_disk = [9989 # lit '' All tests passed'']
   \<and> lit ''```'' \<notin> set (process_test_output mixed_disk)
   \<and> lit ''test result: FAILED. 0 passed; 1 failed'' \<notin> set (process_test_output mixed_disk)"
proof -
  have out: "process_test_output mixed_disk = [9989 # lit '' All tests passed'']"
    by (simp add: process_test_file [of mixed_disk test_mixed_text] disk_lookups
        test_mixed_text_matches)
  have "lit ''```'' \<noteq> 9989 # lit '' All tests passed''"
    "lit ''test result: FAILED. 0 passed; 1 failed'' \<noteq> 9989 # lit '' All tests passed''"
    by (simp_all add: lit_def)
  with out show ?thesis
    by (simp add: disk_lookups test_mixed_text_matches)
qed

text \<open>
  Claim C2, as amended. For every input log file that is absent, the method for it returns
  no lines and raises nothing, and its section is omitted from the report entirely:
  neither its heading nor its "no issues" sentence is a line of the report. With all three
  files absent the report is the header alone.
\<close>

theorem absent_log_section_omitted:
  "(fs clippy_path = None \<longrightarrow>
      process_clippy_output fs = [] \<and> clippy_block (process_clippy_output fs) = [] \<and>
      lit ''### Rust Analysis'' \<notin> set (report_content ts fs) \<and>
      lit ''#### Clippy Findings'' \<notin> set (report_content ts fs) \<and>
      lit ''No clippy warnings found.'' \<notin> set (report_content ts fs))
   \<and> (fs fmt_path = None \<longrightarrow>
      process_fmt_output fs = [] \<and> fmt_block (process_fmt_output fs) = [] \<and>
      lit ''#### Formatting Issues'' \<notin> set (report_content ts fs) \<and>
      lit ''No formatting issues found.'' \<notin> set (report_content ts fs))
   \<and> (fs test_path = None \<longrightarrow>
      process_test_output fs = [] \<and> test_block (process_test_output fs) = [] \<and>
      lit ''### Test Results'' \<notin> set (report_content ts fs))
   \<and> (fs clippy_path = None \<and> fs fmt_path = None \<and> fs test_path = None \<longrightarrow>
      report_content ts fs = report_header ts)"
proof (intro conjI impI)
  assume a: "fs clippy_path = None"
  then show c: "process_clippy_output fs = []" by (rule process_clippy_absent)
  then show "clippy_block (process_clippy_output fs) = []" by simp
  from c show "lit ''### Rust Analysis'' \<notin> set (report_content ts fs)"
    by (rule clippy_omitted)
  from c show "lit ''#### Clippy Findings'' \<notin> set (report_content ts fs)"
    by (rule clippy_omitted)
  from c show "lit ''No clippy warnings found.'' \<notin> set (report_content ts fs)"
    by (rule clippy_omitted)
next
  assume "fs fmt_path = None"
  then show f: "process_fmt_output fs = []" by (rule process_fmt_absent)
  then show "fmt_block (process_fmt_output fs) = []" by simp
  from f show "lit ''#### Formatting Issues'' \<notin> set (report_content ts fs)"
    by (rule fmt_omitted)
  from f show "lit ''No formatting issues found.'' \<notin> set (report_content ts fs)"
    by (rule fmt_omitted)
next
  assume "fs test_path = None"
  then show t: "process_test_output fs = []" by (rule process_test_absent)
  then show "test_block (process_test_output fs) = []" by simp
  from t show "lit ''### Test Results'' \<notin> set (report_content ts fs)"
    by (rule test_omitted)
next
  assume "fs clippy_path = None \<and> fs fmt_path = None \<and> fs test_path = None"
  then show "report_content ts fs = report_header ts"
    by (simp add: report_content_def process_clippy_absent process_fmt_absent
        process_test_absent)
qed

theorem absent_log_section_omitted_witness:
  "empty_disk clippy_path = None \<and> empty_disk fmt_path = None \<and> empty_disk test_path = None
   \<and> process_clippy_output empty_disk = [] \<and> process_fmt_output empty_disk = []
   \<and> process_test_output empty_disk = []
   \<and> lit ''#### Clippy Findings'' \<notin> set (report_content ts0 empty_disk)
   \<and> lit ''#### Formatting Issues'' \<notin> set (report_content ts0 empty_disk)
   \<and> lit ''### Test Results'' \<notin> set (report_content ts0 empty_disk)
   \<and> report_content ts0 empty_disk = report_header ts0"
proof -
  have h: "empty_disk clippy_path = None" "empty_disk fmt_path = None"
    "empty_disk test_path = None"
    by (simp_all add: disk_lookups)
  from absent_log_section_omitted [of empty_disk ts0] h show ?thesis by blast
qed

text \<open>
  The claim as first stated fails with no log file present: the report is the header, and
  neither "No clippy warnings found." nor "No formatting issues found." is rendered.
\<close>

theorem absent_log_section_omitted_counterexample:
  "empty_disk clippy_path = None \<and> empty_disk fmt_path = None \<and> empty_disk test_path = None
   \<and> report_content ts0 empty_disk = report_header ts0
   \<and> lit ''No clippy warnings found.'' \<notin> set (report_content ts0 empty_disk)
   \<and> lit ''No formatting issues found.'' \<notin> set (report_content ts0 empty_disk)"
proof -
  have c: "process_clippy_output empty_disk = []"
    by (simp add: process_clippy_absent disk_lookups)
  have f: "process_fmt_output empty_disk = []"
    by (simp add: process_fmt_absent disk_lookups)
  have t: "process_test_output empty_disk = []"
    by (simp add: process_test_absent disk_lookups)
  have "report_content ts0 empty_disk = report_header ts0"
    by (simp add: report_content_def c f t)
  then show ?thesis
    using clippy_omitted(3) [OF c, of ts0] fmt_omitted(2) [OF f, of ts0]
    by (simp add: disk_lookups)
qed

text \<open>
  Claim C3, as amended. When \<open>clippy-output.txt\<close> (or \<open>fmt-output.txt\<close>) exists, is
  readable and has no line containing its marker, its section is rendered with exactly the
  fixed sentence "No clippy warnings found." (or "No formatting issues found.") under its
  heading. When \<open>test-output.txt\<close> exists and contains neither \<open>test result: ok\<close> nor a
  line with \<open>test result: FAILED\<close>, the method returns nothing. A section whose method
  returned nothing is omitted entirely: its heading is no line of the report.
\<close>

theorem no_match_sections:
  "(fs clippy_path = Some (File cbody) \<and> matching_lines (lit ''warning:'') cbody = [] \<longrightarrow>
      clippy_block (process_clippy_output fs) =
        [lit ''### Rust Analysis'', [], lit ''#### Clippy Findings'', [],
         lit ''No clippy warnings found.'', []])
   \<and> (fs fmt_path = Some (File fbody) \<and> matching_lines (lit ''Diff in'') fbody = [] \<longrightarrow>
      fmt_block (process_fmt_output fs) =
        [lit ''#### Formatting Issues'', [], lit ''No formatting issues found.'', []])
   \<and> (fs test_path = Some (File tbody) \<and> \<not> contains (lit ''test result: ok'') tbody
        \<and> matching_lines (lit ''test result: FAILED'') tbody = [] \<longrightarrow>
      process_test_output fs = [])
   \<and> (process_clippy_output fs = [] \<longrightarrow>
      clippy_block (process_clippy_output fs) = [] \<and>
      lit ''### Rust Analysis'' \<notin> set (report_content ts fs) \<and>
      lit ''#### Clippy Findings'' \<notin> set (report_content ts fs))
   \<and> (process_fmt_output fs = [] \<longrightarrow>
      fmt_block (process_fmt_output fs) = [] \<and>
      lit ''#### Formatting Issues'' \<notin> set (report_content ts fs))
   \<and> (process_test_output fs = [] \<longrightarrow>
      test_block (process_test_output fs) = [] \<and>
      lit ''### Test Results'' \<notin> set (report_content ts fs))"
proof (intro conjI impI)
  assume "fs clippy_path = Some (File cbody) \<and> matching_lines (lit ''warning:'') cbody = []"
  then have "process_clippy_output fs = [lit ''No clippy warnings found.'']"
    by (simp add: process_clippy_file)
  then show "clippy_block (process_clippy_output fs) =
        [lit ''### Rust Analysis'', [], lit ''#### Clippy Findings'', [],
         lit ''No clippy warnings found.'', []]"
    by (simp add: clippy_block_def)
next
  assume "fs fmt_path = Some (File fbody) \<and> matching_lines (lit ''Diff in'') fbody = []"
  then have "process_fmt_output fs = [lit ''No formatting issues found.'']"
    by (simp add: process_fmt_file)
  then show "fmt_block (process_fmt_output fs) =
        [lit ''#### Formatting Issues'', [], lit ''No formatting issues found.'', []]"
    by (simp add: fmt_block_def)
next
  assume "fs test_path = Some (File tbody) \<and> \<not> contains (lit ''test result: ok'') tbody
        \<and> matching_lines (lit ''test result: FAILED'') tbody = []"
  then show "process_test_output fs = []"
    by (simp add: process_test_file)
next
  assume c: "process_clippy_output fs = []"
  then show "clippy_block (process_clippy_output fs) = []" by simp
  from c show "lit ''### Rust Analysis'' \<notin> set (report_content ts fs)"
    by (rule clippy_omitted)
  from c show "lit ''#### Clippy Findings'' \<notin> set (report_content ts fs)"
    by (rule clippy_omitted)
next
  assume f: "process_fmt_output fs = []"
  then show "fmt_block (process_fmt_output fs) = []" by simp
  from f show "lit ''#### Formatting Issues'' \<notin> set (report_content ts fs)"
    by (rule fmt_omitted)
next
  assume t: "process_test_output fs = []"
  then show "test_block (process_test_output fs) = []" by simp
  from t show "lit ''### Test Results'' \<notin> set (report_content ts fs)"
    by (rule test_omitted)
qed

theorem no_match_sections_witness:
  "quiet_disk clippy_path = Some (File (lit ''Checking demo'' @ [10]))
   \<and> matching_lines (lit ''warning:'') (lit ''Checking demo'' @ [10]) = []
   \<and> clippy_block (process_clippy_output quiet_disk) =
        [lit ''### Rust Analysis'', [], lit ''#### Clippy Findings'', [],
         lit ''No clippy warnings found.'', []]
   \<and> quiet_disk fmt_path = Some (File [])
   \<and> matching_lines (lit ''Diff in'') [] = []
   \<and> fmt_block (process_fmt_output quiet_disk) =
        [lit ''#### Formatting Issues'', [], lit ''No formatting issues found.'', []]
   \<and> quiet_disk test_path = Some (File test_quiet_text)
   \<and> \<not> contains (lit ''test result: ok'') test_quiet_text
   \<and> matching_lines (lit ''test result: FAILED'') test_quiet_text = []
   \<and> process_test_output quiet_disk = []
   \<and> lit ''### Test Results'' \<notin> set (report_content ts0 quiet_disk)
   \<and> process_clippy_output empty_disk = [] \<and> process_fmt_output empty_disk = []
   \<and> lit ''#### Clippy Findings'' \<notin> set (report_content ts0 empty_disk)
   \<and> lit ''#### Formatting Issues'' \<notin> set (report_content ts0 empty_disk)"
  using no_match_sections [of quiet_disk "lit ''Checking demo'' @ [10]" "[]" test_quiet_text ts0]
    no_match_sections [of empty_disk _ _ _ ts0]
  by (simp add: disk_lookups quiet_logs_match test_quiet_text_matches process_clippy_absent
      process_fmt_absent)

text \<open>
  The claim as first stated fails for the Test Results section: a test log that exists and
  has no matching line gives no sentence at all, and the section is left out.
\<close>

theorem no_match_sections_counterexample:
  "quiet_disk test_path = Some (File test_quiet_text)
   \<and> matching_lines (lit ''test result: FAILED'') test_quiet_text = []
   \<and> process_test_output quiet_disk = []
   \<and> test_block (process_test_output quiet_disk) = []
   \<and> lit ''### Test Results'' \<notin> set (report_content ts0 quiet_disk)"
proof -
  have t: "process_test_output quiet_disk = []"
    by (simp add: process_test_file [of quiet_disk test_quiet_text] disk_lookups
        test_quiet_text_matches)
  then show ?thesis
    using test_omitted [OF t, of ts0]
    by (simp add: disk_lookups test_quiet_text_matches)
qed

text \<open>
  Claim C10. The line \<open>### Rust Analysis\<close> is in the report if and only if the clippy
  method returned some line. Hence, with \<open>clippy-output.txt\<close> absent and a non-empty fmt
  result, the heading \<open>#### Formatting Issues\<close> comes right after the header, and no line
  above it is a heading of level three.
\<close>

theorem rust_analysis_heading_iff:
  "(lit ''### Rust Analysis'' \<in> set (report_content ts fs) \<longleftrightarrow> process_clippy_output fs \<noteq> [])
   \<and> (fs clippy_path = None \<and> process_fmt_output fs \<noteq> [] \<longrightarrow>
        take 7 (report_content ts fs) = report_header ts @ [lit ''#### Formatting Issues'', []]
        \<and> (\<forall>l \<in> set (report_header ts). \<not> prefix (lit ''###'') l)
        \<and> lit ''### Rust Analysis'' \<notin> set (report_content ts fs))"
proof (intro conjI impI)
  show "lit ''### Rust Analysis'' \<in> set (report_content ts fs) \<longleftrightarrow> process_clippy_output fs \<noteq> []"
  proof
    assume "lit ''### Rust Analysis'' \<in> set (report_content ts fs)"
    then show "process_clippy_output fs \<noteq> []"
      using clippy_omitted(1) [of fs ts] by blast
  next
    assume "process_clippy_output fs \<noteq> []"
    then show "lit ''### Rust Analysis'' \<in> set (report_content ts fs)"
      by (simp add: report_content_set clippy_block_def)
  qed
next
  assume a: "fs clippy_path = None \<and> process_fmt_output fs \<noteq> []"
  then have c: "process_clippy_output fs = []" by (simp add: process_clippy_absent)
  from a c show "take 7 (report_content ts fs) = report_header ts @ [lit ''#### Formatting Issues'', []]"
    by (simp add: report_content_def fmt_block_def report_header_def)
  show "\<forall>l \<in> set (report_header ts). \<not> prefix (lit ''###'') l"
    by (simp add: report_header_def lit_def)
  from c show "lit ''### Rust Analysis'' \<notin> set (report_content ts fs)"
    by (rule clippy_omitted)
qed

theorem rust_analysis_heading_iff_witness:
  "fmt_only_disk clippy_path = None \<and> process_fmt_output fmt_only_disk \<noteq> []
   \<and> process_clippy_output fmt_only_disk = []
   \<and> lit ''### Rust Analysis'' \<notin> set (report_content ts0 fmt_only_disk)
   \<and> take 7 (report_content ts0 fmt_only_disk) =
        report_header ts0 @ [lit ''#### Formatting Issues'', []]
   \<and> process_clippy_output busy_disk \<noteq> []
   \<and> lit ''### Rust Analysis'' \<in> set (report_content ts0 busy_disk)"
proof -
  have f: "process_fmt_output fmt_only_disk \<noteq> []"
    by (simp add: process_fmt_file [of fmt_only_disk fmt_text] disk_lookups fmt_text_matches)
  have b: "process_clippy_output busy_disk \<noteq> []"
    by (simp add: process_clippy_file [of busy_disk clippy_text] disk_lookups
        clippy_text_matches)
  have h: "fmt_only_disk clippy_path = None" by (simp add: disk_lookups)
  from rust_analysis_heading_iff [of ts0 fmt_only_disk]
    rust_analysis_heading_iff [of ts0 busy_disk] f b h
  show ?thesis by blast
qed

lemma process_depends_on_own_file:
  "fs clippy_path = fs' clippy_path \<Longrightarrow> process_clippy_output fs = process_clippy_output fs'"
  "fs fmt_path = fs' fmt_path \<Longrightarrow> process_fmt_output fs = process_fmt_output fs'"
  "fs test_path = fs' test_path \<Longrightarrow> process_test_output fs = process_test_output fs'"
  by (simp_all add: process_clippy_output_def process_fmt_output_def process_test_output_def
      path_exists_def read_text_def)

lemma report_content_split:
  "report_content ts fs =
     lit ''# Code Analysis Report'' # (lit ''Generated on: '' @ ts) # report_body fs"
  by (simp add: report_content_def report_header_def report_body_def)

lemma report_body_same:
  "fs clippy_path = fs' clippy_path \<Longrightarrow> fs fmt_path = fs' fmt_path \<Longrightarrow>
     fs test_path = fs' test_path \<Longrightarrow> report_body fs = report_body fs'"
  using process_depends_on_own_file [of fs fs'] by (simp add: report_body_def)

lemma join_lines_Cons:
  "rest \<noteq> [] \<Longrightarrow> join_lines (a # rest) = a @ [10] @ join_lines rest"
  by (cases rest) simp_all

lemma report_body_not_Nil: "report_body fs \<noteq> []"
  by (simp add: report_body_def)

text \<open>
  Claim C9. Two runs of the log scanner on the same three input files give the same report
  except for the timestamp line: whatever else differs on disk and whatever the two clock
  readings are, the two texts have the same number of lines, agree on every line but the
  second, which is \<open>Generated on:\<close> with the reading of that run, and the whole text is
  the title, that line, and a remainder that either run yields.
\<close>

theorem report_deterministic_except_timestamp:
  assumes "fs clippy_path = fs' clippy_path" and "fs fmt_path = fs' fmt_path"
    and "fs test_path = fs' test_path"
  shows "length (report_content ts fs) = length (report_content ts' fs')
     \<and> (\<forall>i < length (report_content ts fs). i \<noteq> 1 \<longrightarrow>
          report_content ts fs ! i = report_content ts' fs' ! i)
     \<and> report_content ts fs ! 1 = lit ''Generated on: '' @ ts
     \<and> report_content ts' fs' ! 1 = lit ''Generated on: '' @ ts'
     \<and> join_lines (report_content ts fs) =
          lit ''# Code Analysis Report'' @ [10] @ lit ''Generated on: '' @ ts @ [10]
            @ join_lines (drop 2 (report_content ts' fs'))"
proof -
  have same: "report_body fs = report_body fs'"
    using assms by (rule report_body_same)
  have nth: "report_content ts fs ! i = report_content ts' fs' ! i" if "i \<noteq> 1" for i
  proof (cases i)
    case 0
    then show ?thesis by (simp add: report_content_split)
  next
    case (Suc j)
    with that obtain k where "j = Suc k" by (cases j) auto
    with Suc show ?thesis by (simp add: report_content_split same)
  qed
  have "join_lines (report_content ts fs) =
          lit ''# Code Analysis Report'' @ [10] @ lit ''Generated on: '' @ ts @ [10]
            @ join_lines (report_body fs)"
    by (simp add: report_content_split join_lines_Cons report_body_not_Nil)
  then show ?thesis
    using nth by (simp add: report_content_split same)
qed

theorem report_deterministic_except_timestamp_witness:
  "busy_disk clippy_path = reports_disk clippy_path
   \<and> busy_disk fmt_path = reports_disk fmt_path
   \<and> busy_disk test_path = reports_disk test_path
   \<and> length (report_content ts0 busy_disk) = length (report_content ts1 reports_disk)
   \<and> report_content ts0 busy_disk ! 0 = report_content ts1 reports_disk ! 0
   \<and> report_content ts0 busy_disk ! 1 = lit ''Generated on: '' @ ts0
   \<and> report_content ts1 reports_disk ! 1 = lit ''Generated on: '' @ ts1"
proof -
  have h: "busy_disk clippy_path = reports_disk clippy_path"
    "busy_disk fmt_path = reports_disk fmt_path"
    "busy_disk test_path = reports_disk test_path"
    using log_paths_distinct by (simp_all add: reports_disk_def)
  have pos: "0 < length (report_content ts0 busy_disk)"
    by (simp add: report_content_def report_header_def)
  note t = report_deterministic_except_timestamp [OF h, of ts0 ts1]
  from t have "\<forall>i < length (report_content ts0 busy_disk). i \<noteq> 1 \<longrightarrow>
      report_content ts0 busy_disk ! i = report_content ts1 reports_disk ! i"
    by blast
  with pos have "report_content ts0 busy_disk ! 0 = report_content ts1 reports_disk ! 0"
    by auto
  with t h show ?thesis by blast
qed

lemma report_content_mkdir: "report_content ts (fs(report_dir \<mapsto> Dir)) = report_content ts fs"
proof -
  have "report_body (fs(report_dir \<mapsto> Dir)) = report_body fs"
    using log_paths_distinct by (intro report_body_same) simp_all
  then show ?thesis by (simp add: report_content_split)
qed

lemma dirname_report_path: "dirname report_path = report_dir"
  by (simp add: dirname_def report_path_def report_dir_def lit_def)

lemma dirname_report_dir: "dirname report_dir = []"
  by (simp add: dirname_def report_dir_def lit_def)

lemma report_dir_not_Nil: "report_dir \<noteq> []"
  by (simp add: report_dir_def lit_def)

lemma scanner_main_writes:
  assumes "fs report_dir = None \<or> fs report_dir = Some Dir"
    and "fs report_path = None \<or> (\<exists>old. fs report_path = Some (File old))"
  shows "scanner_main ts fs =
     \<lparr>raised = None, printed = [lit ''Report generated at '' @ report_path],
      disk = (if fs report_dir = None then fs(report_dir \<mapsto> Dir) else fs)
               (report_path \<mapsto> File (join_lines (report_content ts fs)))\<rparr>"
proof (cases "fs report_dir")
  case None
  then have m: "mkdir_exist_ok report_dir fs = Inr (fs(report_dir \<mapsto> Dir))"
    by (simp add: mkdir_exist_ok_def parent_node_def dirname_report_dir)
  have "write_text report_path s (fs(report_dir \<mapsto> Dir))
      = Inr ((fs(report_dir \<mapsto> Dir))(report_path \<mapsto> File s))" for s
    using assms(2) log_paths_distinct(10)
    by (auto simp add: write_text_def parent_node_def dirname_report_path report_dir_not_Nil)
  with m None show ?thesis
    by (simp add: scanner_main_def generate_report_def report_content_mkdir)
next
  case (Some n)
  with assms(1) have d: "fs report_dir = Some Dir" by simp
  then have m: "mkdir_exist_ok report_dir fs = Inr fs"
    by (simp add: mkdir_exist_ok_def)
  have "write_text report_path s fs = Inr (fs(report_path \<mapsto> File s))" for s
    using assms(2) d
    by (auto simp add: write_text_def parent_node_def dirname_report_path report_dir_not_Nil)
  with m d show ?thesis
    by (simp add: scanner_main_def generate_report_def)
qed

lemma prefix_no_break:
  "list_all (\<lambda>c. \<not> is_linebreak c) (lit ''Error processing clippy output: '')"
  "list_all (\<lambda>c. \<not> is_linebreak c) (lit ''Error processing fmt output: '')"
  "list_all (\<lambda>c. \<not> is_linebreak c) (lit ''Error processing test output: '')"
  by (simp_all add: lit_def is_linebreak_def)

lemma process_read_failure:
  "fs clippy_path \<noteq> None \<Longrightarrow> read_text clippy_path fs = Inl e \<Longrightarrow>
     process_clippy_output fs = [lit ''Error processing clippy output: '' @ str_error e]"
  "fs fmt_path \<noteq> None \<Longrightarrow> read_text fmt_path fs = Inl e \<Longrightarrow>
     process_fmt_output fs = [lit ''Error processing fmt output: '' @ str_error e]"
  "fs test_path \<noteq> None \<Longrightarrow> read_text test_path fs = Inl e \<Longrightarrow>
     process_test_output fs = [lit ''Error processing test output: '' @ str_error e]"
  by (simp_all add: process_clippy_output_def process_fmt_output_def process_test_output_def
      path_exists_def)

text \<open>
  Claim C7. A log source that is there but cannot be read (the read raises: permission
  denied, undecodable bytes, a directory under that name) does not end the run. The
  method catches the exception and returns one line, \<open>Error processing ... output:\<close>
  followed by the text of the exception (one line of text when that text has no line
  boundary), and that line is in the report. Whatever the
  state of the three log sources, if the \<open>reports\<close> directory can be made or is there and
  the report file can be written, the run raises nothing, writes the report and prints the
  line with its path.
\<close>

theorem log_failure_is_diagnostic_line:
  assumes "fs report_dir = None \<or> fs report_dir = Some Dir"
    and "fs report_path = None \<or> (\<exists>old. fs report_path = Some (File old))"
  shows "raised (scanner_main ts fs) = None
     \<and> printed (scanner_main ts fs) = [lit ''Report generated at reports/analysis-report.md'']
     \<and> disk (scanner_main ts fs) report_path = Some (File (join_lines (report_content ts fs)))
     \<and> (fs clippy_path \<noteq> None \<and> read_text clippy_path fs = Inl e \<longrightarrow>
          process_clippy_output fs = [lit ''Error processing clippy output: '' @ str_error e] \<and>
          lit ''Error processing clippy output: '' @ str_error e \<in> set (report_content ts fs))
     \<and> (fs fmt_path \<noteq> None \<and> read_text fmt_path fs = Inl e \<longrightarrow>
          process_fmt_output fs = [lit ''Error processing fmt output: '' @ str_error e] \<and>
          lit ''Error processing fmt output: '' @ str_error e \<in> set (report_content ts fs))
     \<and> (fs test_path \<noteq> None \<and> read_text test_path fs = Inl e \<longrightarrow>
          process_test_output fs = [lit ''Error processing test output: '' @ str_error e] \<and>
          lit ''Error processing test output: '' @ str_error e \<in> set (report_content ts fs))
     \<and> (fs p = Some (Locked m) \<longrightarrow> read_text p fs = Inl (IOFailure m) \<and> str_error (IOFailure m) = m)
     \<and> (fs p = Some Dir \<longrightarrow> read_text p fs = Inl (IsADirectoryError p))
     \<and> ((\<forall>c \<in> set (str_error e). \<not> is_linebreak c) \<longrightarrow>
          (\<forall>c \<in> set (lit ''Error processing clippy output: '' @ str_error e). \<not> is_linebreak c) \<and>
          (\<forall>c \<in> set (lit ''Error processing fmt output: '' @ str_error e). \<not> is_linebreak c) \<and>
          (\<forall>c \<in> set (lit ''Error processing test output: '' @ str_error e). \<not> is_linebreak c))"
proof -
  note run = scanner_main_writes [OF assms, of ts]
  have a: "raised (scanner_main ts fs) = None" by (simp add: run)
  have b: "printed (scanner_main ts fs) = [lit ''Report generated at reports/analysis-report.md'']"
    by (simp add: run report_path_def lit_def)
  have c: "disk (scanner_main ts fs) report_path = Some (File (join_lines (report_content ts fs)))"
    by (simp add: run)
  have d: "process_clippy_output fs = [lit ''Error processing clippy output: '' @ str_error e] \<and>
          lit ''Error processing clippy output: '' @ str_error e \<in> set (report_content ts fs)"
    if "fs clippy_path \<noteq> None \<and> read_text clippy_path fs = Inl e"
    using that by (simp add: process_read_failure report_content_set clippy_block_def)
  have f: "process_fmt_output fs = [lit ''Error processing fmt output: '' @ str_error e] \<and>
          lit ''Error processing fmt output: '' @ str_error e \<in> set (report_content ts fs)"
    if "fs fmt_path \<noteq> None \<and> read_text fmt_path fs = Inl e"
    using that by (simp add: process_read_failure report_content_set fmt_block_def)
  have g: "process_test_output fs = [lit ''Error processing test output: '' @ str_error e] \<and>
          lit ''Error processing test output: '' @ str_error e \<in> set (report_content ts fs)"
    if "fs test_path \<noteq> None \<and> read_text test_path fs = Inl e"
    using that by (simp add: process_read_failure report_content_set test_block_def)
  have h: "fs p = Some (Locked m) \<longrightarrow> read_text p fs = Inl (IOFailure m) \<and> str_error (IOFailure m) = m"
    "fs p = Some Dir \<longrightarrow> read_text p fs = Inl (IsADirectoryError p)"
    by (simp_all add: read_text_def)
  have one_line: "(\<forall>c \<in> set (str_error e). \<not> is_linebreak c) \<longrightarrow>
      (\<forall>c \<in> set (lit ''Error processing clippy output: '' @ str_error e). \<not> is_linebreak c) \<and>
      (\<forall>c \<in> set (lit ''Error processing fmt output: '' @ str_error e). \<not> is_linebreak c) \<and>
      (\<forall>c \<in> set (lit ''Error processing test output: '' @ str_error e). \<not> is_linebreak c)"
    using prefix_no_break by (simp add: list_all_iff ball_Un)
  from a b c d f g h one_line show ?thesis by blast
qed

theorem log_failure_is_diagnostic_line_witness:
  "locked_disk report_dir = None
   \<and> locked_disk report_path = None
   \<and> locked_disk clippy_path \<noteq> None
   \<and> read_text clippy_path locked_disk = Inl (IOFailure denied)
   \<and> process_clippy_output locked_disk = [lit ''Error processing clippy output: '' @ denied]
   \<and> lit ''Error processing clippy output: '' @ denied \<in> set (report_content ts0 locked_disk)
   \<and> locked_disk fmt_path \<noteq> None
   \<and> read_text fmt_path locked_disk = Inl (IsADirectoryError fmt_path)
   \<and> process_fmt_output locked_disk =
        [lit ''Error processing fmt output: '' @ str_error (IsADirectoryError fmt_path)]
   \<and> raised (scanner_main ts0 locked_disk) = None
   \<and> printed (scanner_main ts0 locked_disk) = [lit ''Report generated at reports/analysis-report.md'']
   \<and> disk (scanner_main ts0 locked_disk) report_path =
        Some (File (join_lines (report_content ts0 locked_disk)))"
proof -
  have h1: "locked_disk report_dir = None \<or> locked_disk report_dir = Some Dir"
    by (simp add: disk_lookups)
  have h2: "locked_disk report_path = None \<or> (\<exists>old. locked_disk report_path = Some (File old))"
    by (simp add: disk_lookups)
  have r: "locked_disk clippy_path \<noteq> None" "locked_disk fmt_path \<noteq> None"
    "read_text clippy_path locked_disk = Inl (IOFailure denied)"
    "read_text fmt_path locked_disk = Inl (IsADirectoryError fmt_path)"
    by (simp_all add: disk_lookups read_text_def)
  note t1 = log_failure_is_diagnostic_line [OF h1 h2, of ts0 "IOFailure denied"]
  note t2 = log_failure_is_diagnostic_line [OF h1 h2, of ts0 "IsADirectoryError fmt_path"]
  from t1 have run: "raised (scanner_main ts0 locked_disk) = None"
    "printed (scanner_main ts0 locked_disk) = [lit ''Report generated at reports/analysis-report.md'']"
    "disk (scanner_main ts0 locked_disk) report_path =
        Some (File (join_lines (report_content ts0 locked_disk)))"
    by blast+
  from t1 r have c: "process_clippy_output locked_disk =
      [lit ''Error processing clippy output: '' @ str_error (IOFailure denied)]"
    "lit ''Error processing clippy output: '' @ str_error (IOFailure denied)
       \<in> set (report_content ts0 locked_disk)"
    by blast+
  from t2 r have f: "process_fmt_output locked_disk =
      [lit ''Error processing fmt output: '' @ str_error (IsADirectoryError fmt_path)]"
    by blast
  from run c f r show ?thesis
    by (simp only: disk_lookups str_error.simps simp_thms)
qed

section \<open>The report builder: claims\<close>

lemma count_of_list:
  "map_of kvs k = None \<or> (\<exists>xs. map_of kvs k = Some (JList xs)) \<Longrightarrow>
     count_of (JDict kvs) k = Inr (spec_count kvs k)"
  by (auto simp: count_of_def spec_count_def)

text \<open>
  Claim C6. For a JSON analysis document that is a mapping whose keys \<open>files\<close>,
  \<open>critical\<close>, \<open>major\<close>, \<open>minor\<close> and \<open>best_practices\<close> hold lists where they are
  present, \<open>_calculate_metrics\<close> returns the five counts, each the length of the list
  under its key and 0, not an error, where the key is absent. The empty mapping gives five
  zeros.
\<close>

theorem metrics_summary_counts:
  "((\<forall>k \<in> set summary_keys. map_of kvs k = None \<or> (\<exists>xs. map_of kvs k = Some (JList xs))) \<longrightarrow>
     calculate_metrics (JDict kvs) =
       Inr \<lparr>files_reviewed = spec_count kvs (lit ''files''),
            critical_issues = spec_count kvs (lit ''critical''),
            major_issues = spec_count kvs (lit ''major''),
            minor_issues = spec_count kvs (lit ''minor''),
            best_practices = spec_count kvs (lit ''best_practices'')\<rparr>)
   \<and> (map_of kvs k = None \<longrightarrow> spec_count kvs k = 0 \<and> count_of (JDict kvs) k = Inr 0)
   \<and> (map_of kvs k = Some (JList xs) \<longrightarrow>
        spec_count kvs k = length xs \<and> count_of (JDict kvs) k = Inr (length xs))
   \<and> calculate_metrics (JDict []) =
       Inr \<lparr>files_reviewed = 0, critical_issues = 0, major_issues = 0, minor_issues = 0,
            best_practices = 0\<rparr>"
proof (intro conjI impI)
  assume a: "\<forall>k \<in> set summary_keys. map_of kvs k = None \<or> (\<exists>xs. map_of kvs k = Some (JList xs))"
  have "count_of (JDict kvs) k = Inr (spec_count kvs k)" if "k \<in> set summary_keys" for k
    using a that count_of_list by blast
  then show "calculate_metrics (JDict kvs) =
       Inr \<lparr>files_reviewed = spec_count kvs (lit ''files''),
            critical_issues = spec_count kvs (lit ''critical''),
            major_issues = spec_count kvs (lit ''major''),
            minor_issues = spec_count kvs (lit ''minor''),
            best_practices = spec_count kvs (lit ''best_practices'')\<rparr>"
    by (simp add: calculate_metrics_def summary_keys_def)
next
  assume "map_of kvs k = None"
  then show "spec_count kvs k = 0" "count_of (JDict kvs) k = Inr 0"
    by (simp_all add: spec_count_def count_of_def)
next
  assume "map_of kvs k = Some (JList xs)"
  then show "spec_count kvs k = length xs" "count_of (JDict kvs) k = Inr (length xs)"
    by (simp_all add: spec_count_def count_of_def)
next
  show "calculate_metrics (JDict []) =
       Inr \<lparr>files_reviewed = 0, critical_issues = 0, major_issues = 0, minor_issues = 0,
            best_practices = 0\<rparr>"
    by (simp add: calculate_metrics_def count_of_def)
qed

theorem metrics_summary_counts_witness:
  "map_of doc0 (lit ''files'') = Some (JList [JStr (lit ''a.rs''), JStr (lit ''b.rs'')])
   \<and> map_of doc0 (lit ''critical'') = None
   \<and> map_of doc0 (lit ''major'') = None
   \<and> map_of doc0 (lit ''minor'') = Some (JList [JNull])
   \<and> map_of doc0 (lit ''best_practices'') = None
   \<and> calculate_metrics (JDict doc0) =
       Inr \<lparr>files_reviewed = 2, critical_issues = 0, major_issues = 0, minor_issues = 1,
            best_practices = 0\<rparr>"
proof -
  have l: "map_of doc0 (lit ''files'') = Some (JList [JStr (lit ''a.rs''), JStr (lit ''b.rs'')])"
    "map_of doc0 (lit ''critical'') = None"
    "map_of doc0 (lit ''major'') = None"
    "map_of doc0 (lit ''minor'') = Some (JList [JNull])"
    "map_of doc0 (lit ''best_practices'') = None"
    by (simp_all add: doc0_def lit_def)
  then have h: "\<forall>k \<in> set summary_keys.
      map_of doc0 k = None \<or> (\<exists>xs. map_of doc0 k = Some (JList xs))"
    by (simp add: summary_keys_def)
  have c: "spec_count doc0 (lit ''files'') = 2" "spec_count doc0 (lit ''critical'') = 0"
    "spec_count doc0 (lit ''major'') = 0" "spec_count doc0 (lit ''minor'') = 1"
    "spec_count doc0 (lit ''best_practices'') = 0"
    by (simp_all add: spec_count_def l)
  from metrics_summary_counts [of doc0 "lit ''critical''"] h l c show ?thesis by simp
qed

lemma dirname_last_slash: "47 \<notin> set b \<Longrightarrow> dirname (a @ [47] @ b) = a"
proof -
  assume nb: "47 \<notin> set b"
  then have "dropWhile (\<lambda>c. c \<noteq> 47) (rev b @ 47 # rev a)
      = dropWhile (\<lambda>c. c \<noteq> 47) (47 # rev a)"
    by (intro dropWhile_append2) auto
  then show ?thesis by (simp add: dirname_def)
qed

lemma output_name_dir:
  assumes "47 \<notin> set pn" and "47 \<notin> set ymd"
  shows "dirname (output_name pn ymd) = report_dir"
proof -
  have "output_name pn ymd = report_dir @ [47] @ (pn @ lit ''-review-'' @ ymd @ lit ''.md'')"
    by (simp add: output_name_def report_dir_def lit_def)
  moreover have "47 \<notin> set (pn @ lit ''-review-'' @ ymd @ lit ''.md'')"
    using assms by (simp add: lit_def)
  ultimately show ?thesis
    using dirname_last_slash [of "pn @ lit ''-review-'' @ ymd @ lit ''.md''" report_dir]
    by simp
qed

lemma save_report_in_reports:
  assumes "47 \<notin> set pn" and "47 \<notin> set ymd"
  shows "fs report_dir = Some Dir \<Longrightarrow>
           fs (output_name pn ymd) = None \<or> (\<exists>old. fs (output_name pn ymd) = Some (File old)) \<Longrightarrow>
           save_report content (output_name pn ymd) fs
             = Inr (fs(output_name pn ymd \<mapsto> File content))"
    and "fs report_dir = None \<Longrightarrow>
           save_report content (output_name pn ymd) fs
             = Inl (FileNotFoundError (output_name pn ymd))"
  using output_name_dir [OF assms] report_dir_not_Nil
  by (auto simp add: save_report_def write_text_def parent_node_def)

text \<open>
  Claim C1, as amended. For a project name that contains no slash (and a date of digits), so
  that \<open>reports/<project_name>-review-<YYYYMMDD>.md\<close> names a file directly in
  \<open>reports\<close>: when the builder saves a report it writes the rendered text to that path,
  making the file or replacing a regular file of that name, provided the \<open>reports\<close>
  directory already exists; then the run prints the path and ends normally. The builder
  makes no directory: when \<open>reports\<close> is absent the write fails with a file-not-found
  error, nothing is printed and the disk is unchanged.
\<close>

theorem save_report_needs_reports_dir:
  assumes "5 \<le> length argv"
    and "builder_init ev fs = Inr render"
    and "load_analysis_data ev (argv ! 2) fs = Inr a"
    and "load_security_data ev (argv ! 3) fs = Inr s"
    and "load_performance_data ev (argv ! 4) fs = Inr p"
    and "builder_generate_report ev render (argv ! 1) a s p = Inr report"
    and "47 \<notin> set (argv ! 1)" and "47 \<notin> set (date_compact ev)"
    and "out = output_name (argv ! 1) (date_compact ev)"
  shows "out = lit ''reports/'' @ argv ! 1 @ lit ''-review-'' @ date_compact ev @ lit ''.md''
     \<and> (fs report_dir = Some Dir \<and> (fs out = None \<or> (\<exists>old. fs out = Some (File old))) \<longrightarrow>
          save_report report out fs = Inr (fs(out \<mapsto> File report)) \<and>
          builder_main ev argv fs =
            \<lparr>raised = None, printed = [lit ''Report generated: '' @ out],
             disk = fs(out \<mapsto> File report)\<rparr>)
     \<and> (fs report_dir = None \<longrightarrow>
          save_report report out fs = Inl (FileNotFoundError out) \<and>
          builder_main ev argv fs =
            \<lparr>raised = Some (OSError (FileNotFoundError out)), printed = [], disk = fs\<rparr>)"
proof (intro conjI impI)
  show "out = lit ''reports/'' @ argv ! 1 @ lit ''-review-'' @ date_compact ev @ lit ''.md''"
    by (simp add: assms(9) output_name_def)
next
  assume d: "fs report_dir = Some Dir \<and> (fs out = None \<or> (\<exists>old. fs out = Some (File old)))"
  then show w: "save_report report out fs = Inr (fs(out \<mapsto> File report))"
    unfolding assms(9) using save_report_in_reports(1) [OF assms(7,8)] by blast
  from assms(1) have "\<not> length argv < 5" by simp
  with w assms(2-6) show "builder_main ev argv fs =
            \<lparr>raised = None, printed = [lit ''Report generated: '' @ out],
             disk = fs(out \<mapsto> File report)\<rparr>"
    by (simp add: builder_main_def assms(9) Let_def)
next
  assume "fs report_dir = None"
  then show w: "save_report report out fs = Inl (FileNotFoundError out)"
    unfolding assms(9) by (rule save_report_in_reports(2) [OF assms(7,8)])
  from assms(1) have "\<not> length argv < 5" by simp
  with w assms(2-6) show "builder_main ev argv fs =
            \<lparr>raised = Some (OSError (FileNotFoundError out)), printed = [], disk = fs\<rparr>"
    by (simp add: builder_main_def assms(9) Let_def failed_def)
qed


subsection \<open>The concrete builder runs, evaluated\<close>

lemma out0: "output_name (lit ''demo'') (lit ''20240101'') = lit ''reports/demo-review-20240101.md''"
  by (simp add: output_name_def lit_def)

lemma builder_disk_lookups:
  "input_disk template_path = Some (File (lit ''# Review''))"
  "input_disk (lit ''a.json'') = Some (File (lit ''{}''))"
  "input_disk (lit ''b.json'') = Some (File (lit ''{''))"
  "input_disk (lit ''missing.json'') = None"
  "input_disk report_dir = None"
  "ready_disk template_path = Some (File (lit ''# Review''))"
  "ready_disk (lit ''a.json'') = Some (File (lit ''{}''))"
  "ready_disk (lit ''b.json'') = Some (File (lit ''{''))"
  "ready_disk (lit ''missing.json'') = None"
  "ready_disk report_dir = Some Dir"
  "ready_disk (lit ''reports/demo-review-20240101.md'') = Some (File (lit ''old''))"
  by (simp_all add: input_disk_def ready_disk_def empty_disk_def template_path_def
      report_dir_def output_name_def lit_def)

lemma env0_fields:
  "json_loads env0 (lit ''{}'') = Some (JDict [])"
  "json_loads env0 (lit ''{'') = None"
  "jinja_compile env0 src = Inr (\<lambda>ctx. Inr src)"
  "date_dashed env0 = lit ''2024-01-01''"
  "date_compact env0 = lit ''20240101''"
  by (simp_all add: env0_def lit_def)

lemma argv_fields:
  "5 \<le> length argv0" "argv0 ! 1 = lit ''demo''" "argv0 ! 2 = lit ''a.json''"
  "argv0 ! 3 = lit ''a.json''" "argv0 ! 4 = lit ''a.json''"
  "5 \<le> length argv_bad" "argv_bad ! 1 = lit ''demo''" "argv_bad ! 2 = lit ''a.json''"
  "argv_bad ! 3 = lit ''missing.json''" "argv_bad ! 4 = lit ''a.json''"
  "5 \<le> length argv_malformed" "argv_malformed ! 1 = lit ''demo''"
  "argv_malformed ! 2 = lit ''a.json''" "argv_malformed ! 3 = lit ''a.json''"
  "argv_malformed ! 4 = lit ''b.json''"
  "argv0 ! Suc 0 = lit ''demo''" "argv_bad ! Suc 0 = lit ''demo''"
  "argv_malformed ! Suc 0 = lit ''demo''"
  "\<not> length argv0 < 5" "\<not> length argv_bad < 5" "\<not> length argv_malformed < 5"
  by (simp_all add: argv0_def argv_bad_def argv_malformed_def)

lemma demo_loads:
  "builder_init env0 input_disk = Inr (\<lambda>ctx. Inr (lit ''# Review''))"
  "builder_init env0 ready_disk = Inr (\<lambda>ctx. Inr (lit ''# Review''))"
  "load_analysis_data env0 (lit ''a.json'') input_disk = Inr (JDict [])"
  "load_security_data env0 (lit ''a.json'') input_disk = Inr (JDict [])"
  "load_performance_data env0 (lit ''a.json'') input_disk = Inr (JDict [])"
  "load_analysis_data env0 (lit ''a.json'') ready_disk = Inr (JDict [])"
  "load_security_data env0 (lit ''a.json'') ready_disk = Inr (JDict [])"
  "load_performance_data env0 (lit ''a.json'') ready_disk = Inr (JDict [])"
  "load_security_data env0 (lit ''missing.json'') ready_disk
     = Inl (OSError (FileNotFoundError (lit ''missing.json'')))"
  "load_performance_data env0 (lit ''b.json'') ready_disk = Inl JSONDecodeError"
  by (simp_all add: builder_init_def load_analysis_data_def load_security_data_def
      load_performance_data_def read_text_def builder_disk_lookups env0_fields)

lemma demo_report:
  "builder_generate_report env0 (\<lambda>ctx. Inr (lit ''# Review'')) (lit ''demo'') (JDict [])
     (JDict []) (JDict []) = Inr (lit ''# Review'')"
  by (simp add: builder_generate_report_def calculate_metrics_def count_of_def)

lemma demo_no_slash: "47 \<notin> set (lit ''demo'')" "47 \<notin> set (lit ''20240101'')"
  by (simp_all add: lit_def)

theorem save_report_needs_reports_dir_witness:
  "5 \<le> length argv0
   \<and> load_analysis_data env0 (argv0 ! 2) ready_disk = Inr (JDict [])
   \<and> load_security_data env0 (argv0 ! 3) ready_disk = Inr (JDict [])
   \<and> load_performance_data env0 (argv0 ! 4) ready_disk = Inr (JDict [])
   \<and> 47 \<notin> set (argv0 ! 1) \<and> 47 \<notin> set (date_compact env0)
   \<and> ready_disk report_dir = Some Dir
   \<and> ready_disk (lit ''reports/demo-review-20240101.md'') = Some (File (lit ''old''))
   \<and> builder_main env0 argv0 ready_disk =
        \<lparr>raised = None, printed = [lit ''Report generated: reports/demo-review-20240101.md''],
         disk = ready_disk(lit ''reports/demo-review-20240101.md'' \<mapsto> File (lit ''# Review''))\<rparr>
   \<and> input_disk report_dir = None
   \<and> builder_main env0 argv0 input_disk =
        \<lparr>raised = Some (OSError (FileNotFoundError (lit ''reports/demo-review-20240101.md''))),
         printed = [], disk = input_disk\<rparr>"
proof -
  have o: "lit ''reports/demo-review-20240101.md'' = output_name (argv0 ! 1) (date_compact env0)"
    by (simp add: argv_fields env0_fields out0)
  have p: "lit ''Report generated: '' @ lit ''reports/demo-review-20240101.md''
      = lit ''Report generated: reports/demo-review-20240101.md''"
    by (simp add: lit_def)
  have ns: "47 \<notin> set (argv0 ! 1)" "47 \<notin> set (date_compact env0)"
    by (simp_all add: argv_fields env0_fields demo_no_slash)
  have g: "builder_generate_report env0 (\<lambda>ctx. Inr (lit ''# Review'')) (argv0 ! 1) (JDict [])
     (JDict []) (JDict []) = Inr (lit ''# Review'')"
    by (simp add: argv_fields demo_report)
  have l: "load_analysis_data env0 (argv0 ! 2) ready_disk = Inr (JDict [])"
    "load_security_data env0 (argv0 ! 3) ready_disk = Inr (JDict [])"
    "load_performance_data env0 (argv0 ! 4) ready_disk = Inr (JDict [])"
    "load_analysis_data env0 (argv0 ! 2) input_disk = Inr (JDict [])"
    "load_security_data env0 (argv0 ! 3) input_disk = Inr (JDict [])"
    "load_performance_data env0 (argv0 ! 4) input_disk = Inr (JDict [])"
    by (simp_all add: argv_fields demo_loads)
  note ready = save_report_needs_reports_dir [OF argv_fields(1) demo_loads(2) l(1-3) g ns o]
  note bare = save_report_needs_reports_dir [OF argv_fields(1) demo_loads(1) l(4-6) g ns o]
  from ready builder_disk_lookups(10,11)
  have r: "builder_main env0 argv0 ready_disk =
        \<lparr>raised = None,
         printed = [lit ''Report generated: '' @ lit ''reports/demo-review-20240101.md''],
         disk = ready_disk(lit ''reports/demo-review-20240101.md'' \<mapsto> File (lit ''# Review''))\<rparr>"
    by blast
  from bare builder_disk_lookups(5)
  have b: "builder_main env0 argv0 input_disk =
        \<lparr>raised = Some (OSError (FileNotFoundError (lit ''reports/demo-review-20240101.md''))),
         printed = [], disk = input_disk\<rparr>"
    by blast
  from r b l ns show ?thesis
    by (simp only: p builder_disk_lookups argv_fields(1) simp_thms)
qed

text \<open>
  The claim as first stated fails where no \<open>reports\<close> directory exists: with a template,
  three well-formed inputs and a rendered report, the write raises, and the disk is left
  as it was, without the directory and without a report.
\<close>

theorem save_report_needs_reports_dir_counterexample:
  "input_disk report_dir = None
   \<and> load_analysis_data env0 (argv0 ! 2) input_disk = Inr (JDict [])
   \<and> load_security_data env0 (argv0 ! 3) input_disk = Inr (JDict [])
   \<and> load_performance_data env0 (argv0 ! 4) input_disk = Inr (JDict [])
   \<and> raised (builder_main env0 argv0 input_disk) =
        Some (OSError (FileNotFoundError (lit ''reports/demo-review-20240101.md'')))
   \<and> printed (builder_main env0 argv0 input_disk) = []
   \<and> disk (builder_main env0 argv0 input_disk) = input_disk
   \<and> disk (builder_main env0 argv0 input_disk) (lit ''reports/demo-review-20240101.md'') = None"
proof -
  have w: "save_report (lit ''# Review'') (lit ''reports/demo-review-20240101.md'') input_disk
      = Inl (FileNotFoundError (lit ''reports/demo-review-20240101.md''))"
    using save_report_in_reports(2) [OF demo_no_slash, of input_disk "lit ''# Review''"]
    by (simp add: out0 builder_disk_lookups)
  have n: "input_disk (lit ''reports/demo-review-20240101.md'') = None"
    by (simp add: input_disk_def empty_disk_def template_path_def lit_def)
  have "builder_main env0 argv0 input_disk =
      failed (OSError (FileNotFoundError (lit ''reports/demo-review-20240101.md''))) input_disk"
    using argv_fields(1)
    by (simp add: builder_main_def argv_fields demo_loads demo_report env0_fields out0 w)
  then show ?thesis
    by (simp add: failed_def builder_disk_lookups argv_fields demo_loads n)
qed

text \<open>
  The condition on the project name is needed. A name with a slash puts the file in a
  directory below \<open>reports\<close>, which the builder does not make either: with \<open>reports\<close>
  present and the name \<open>a/b\<close>, the write fails for want of \<open>reports/a\<close>.
\<close>

lemma nested_project_name_fails:
  "ready_disk report_dir = Some Dir
   \<and> argv_nested ! 1 = lit ''a/b''
   \<and> ready_disk (lit ''reports/a'') = None
   \<and> builder_main env0 argv_nested ready_disk =
        \<lparr>raised = Some (OSError (FileNotFoundError (lit ''reports/a/b-review-20240101.md''))),
         printed = [], disk = ready_disk\<rparr>"
proof -
  have args: "\<not> length argv_nested < 5" "argv_nested ! 1 = lit ''a/b''"
    "argv_nested ! Suc 0 = lit ''a/b''" "argv_nested ! 2 = lit ''a.json''"
    "argv_nested ! 3 = lit ''a.json''" "argv_nested ! 4 = lit ''a.json''"
    by (simp_all add: argv_nested_def)
  have out: "output_name (lit ''a/b'') (lit ''20240101'') = lit ''reports/a/b-review-20240101.md''"
    by (simp add: output_name_def lit_def)
  have dir: "dirname (lit ''reports/a/b-review-20240101.md'') = lit ''reports/a''"
    by (simp add: dirname_def lit_def)
  have none: "ready_disk (lit ''reports/a'') = None"
    by (simp add: ready_disk_def input_disk_def empty_disk_def template_path_def report_dir_def
        output_name_def lit_def)
  have ne: "lit ''reports/a'' \<noteq> []"
    by (simp add: lit_def)
  have w: "save_report (lit ''# Review'') (lit ''reports/a/b-review-20240101.md'') ready_disk
      = Inl (FileNotFoundError (lit ''reports/a/b-review-20240101.md''))"
    by (simp add: save_report_def write_text_def parent_node_def dir none ne)
  have g: "builder_generate_report env0 (\<lambda>ctx. Inr (lit ''# Review'')) (lit ''a/b'') (JDict [])
     (JDict []) (JDict []) = Inr (lit ''# Review'')"
    by (simp add: builder_generate_report_def calculate_metrics_def count_of_def)
  have "builder_main env0 argv_nested ready_disk =
      failed (OSError (FileNotFoundError (lit ''reports/a/b-review-20240101.md''))) ready_disk"
    by (simp add: builder_main_def args demo_loads g env0_fields out w)
  then show ?thesis
    by (simp add: failed_def builder_disk_lookups args none)
qed

lemma load_failures:
  "fs p = None \<Longrightarrow> load_analysis_data ev p fs = Inl (OSError (FileNotFoundError p))"
  "fs p = None \<Longrightarrow> load_security_data ev p fs = Inl (OSError (FileNotFoundError p))"
  "fs p = None \<Longrightarrow> load_performance_data ev p fs = Inl (OSError (FileNotFoundError p))"
  "fs p = Some (File body) \<Longrightarrow> json_loads ev body = None \<Longrightarrow>
     load_analysis_data ev p fs = Inl JSONDecodeError"
  "fs p = Some (File body) \<Longrightarrow> json_loads ev body = None \<Longrightarrow>
     load_security_data ev p fs = Inl JSONDecodeError"
  "fs p = Some (File body) \<Longrightarrow> json_loads ev body = None \<Longrightarrow>
     load_performance_data ev p fs = Inl JSONDecodeError"
  by (simp_all add: load_analysis_data_def load_security_data_def load_performance_data_def
      read_text_def)

lemma builder_main_disk_changed:
  "disk (builder_main ev argv fs) \<noteq> fs \<Longrightarrow>
     (\<exists>a s p. load_analysis_data ev (argv ! 2) fs = Inr a \<and>
        load_security_data ev (argv ! 3) fs = Inr s \<and>
        load_performance_data ev (argv ! 4) fs = Inr p)"
  by (auto simp add: builder_main_def failed_def Let_def split: if_splits sum.splits)

text \<open>
  Claim C8. In the builder, a missing input file makes its loader raise a file-not-found
  error and a file that does not parse makes it raise a JSON error. The first loader that
  fails ends the run with its error: nothing is printed and the disk is as it was. Every
  load comes before the write: a run that changed the disk had all three loads succeed.
\<close>

theorem load_failure_is_fatal:
  assumes "5 \<le> length argv" and "builder_init ev fs = Inr render"
  shows "(load_analysis_data ev (argv ! 2) fs = Inl e \<longrightarrow>
            builder_main ev argv fs = \<lparr>raised = Some e, printed = [], disk = fs\<rparr>)
     \<and> (load_analysis_data ev (argv ! 2) fs = Inr a \<and>
        load_security_data ev (argv ! 3) fs = Inl e \<longrightarrow>
            builder_main ev argv fs = \<lparr>raised = Some e, printed = [], disk = fs\<rparr>)
     \<and> (load_analysis_data ev (argv ! 2) fs = Inr a \<and>
        load_security_data ev (argv ! 3) fs = Inr s \<and>
        load_performance_data ev (argv ! 4) fs = Inl e \<longrightarrow>
            builder_main ev argv fs = \<lparr>raised = Some e, printed = [], disk = fs\<rparr>)
     \<and> (fs p = None \<longrightarrow>
          load_analysis_data ev p fs = Inl (OSError (FileNotFoundError p)) \<and>
          load_security_data ev p fs = Inl (OSError (FileNotFoundError p)) \<and>
          load_performance_data ev p fs = Inl (OSError (FileNotFoundError p)))
     \<and> (fs p = Some (File body) \<and> json_loads ev body = None \<longrightarrow>
          load_analysis_data ev p fs = Inl JSONDecodeError \<and>
          load_security_data ev p fs = Inl JSONDecodeError \<and>
          load_performance_data ev p fs = Inl JSONDecodeError)
     \<and> (disk (builder_main ev argv fs) \<noteq> fs \<longrightarrow>
          (\<exists>a s p. load_analysis_data ev (argv ! 2) fs = Inr a \<and>
             load_security_data ev (argv ! 3) fs = Inr s \<and>
             load_performance_data ev (argv ! 4) fs = Inr p))"
proof -
  from assms(1) have n: "\<not> length argv < 5" by simp
  have a: "load_analysis_data ev (argv ! 2) fs = Inl e \<longrightarrow>
            builder_main ev argv fs = \<lparr>raised = Some e, printed = [], disk = fs\<rparr>"
    using n assms(2) by (simp add: builder_main_def failed_def)
  have b: "load_analysis_data ev (argv ! 2) fs = Inr a \<and>
        load_security_data ev (argv ! 3) fs = Inl e \<longrightarrow>
            builder_main ev argv fs = \<lparr>raised = Some e, printed = [], disk = fs\<rparr>"
    using n assms(2) by (simp add: builder_main_def failed_def)
  have c: "load_analysis_data ev (argv ! 2) fs = Inr a \<and>
        load_security_data ev (argv ! 3) fs = Inr s \<and>
        load_performance_data ev (argv ! 4) fs = Inl e \<longrightarrow>
            builder_main ev argv fs = \<lparr>raised = Some e, printed = [], disk = fs\<rparr>"
    using n assms(2) by (simp add: builder_main_def failed_def)
  from a b c load_failures [of fs p] builder_main_disk_changed [of ev argv fs]
  show ?thesis by blast
qed

theorem load_failure_is_fatal_witness:
  "5 \<le> length argv_bad
   \<and> ready_disk (argv_bad ! 3) = None
   \<and> load_analysis_data env0 (argv_bad ! 2) ready_disk = Inr (JDict [])
   \<and> load_security_data env0 (argv_bad ! 3) ready_disk =
        Inl (OSError (FileNotFoundError (lit ''missing.json'')))
   \<and> builder_main env0 argv_bad ready_disk =
        \<lparr>raised = Some (OSError (FileNotFoundError (lit ''missing.json''))), printed = [],
         disk = ready_disk\<rparr>
   \<and> 5 \<le> length argv_malformed
   \<and> ready_disk (argv_malformed ! 4) = Some (File (lit ''{''))
   \<and> json_loads env0 (lit ''{'') = None
   \<and> load_performance_data env0 (argv_malformed ! 4) ready_disk = Inl JSONDecodeError
   \<and> builder_main env0 argv_malformed ready_disk =
        \<lparr>raised = Some JSONDecodeError, printed = [], disk = ready_disk\<rparr>"
proof -
  have l: "load_analysis_data env0 (argv_bad ! 2) ready_disk = Inr (JDict [])"
    "load_security_data env0 (argv_bad ! 3) ready_disk =
        Inl (OSError (FileNotFoundError (lit ''missing.json'')))"
    "load_analysis_data env0 (argv_malformed ! 2) ready_disk = Inr (JDict [])"
    "load_security_data env0 (argv_malformed ! 3) ready_disk = Inr (JDict [])"
    "load_performance_data env0 (argv_malformed ! 4) ready_disk = Inl JSONDecodeError"
    by (simp_all add: argv_fields demo_loads)
  have d: "ready_disk (argv_bad ! 3) = None"
    "ready_disk (argv_malformed ! 4) = Some (File (lit ''{''))"
    by (simp_all add: argv_fields builder_disk_lookups)
  from load_failure_is_fatal [OF argv_fields(6) demo_loads(2),
      of "OSError (FileNotFoundError (lit ''missing.json''))" "JDict []"]
    load_failure_is_fatal [OF argv_fields(11) demo_loads(2), of JSONDecodeError "JDict []" "JDict []"]
    l d
  show ?thesis by (simp add: argv_fields(6,11) env0_fields)
qed

end
